theory Spec2Isabelle
  imports Main
begin

section \<open>Python values and exceptions\<close>

text \<open>
  The client passes untyped Python values around: decoded JSON bodies, header values,
  optional arguments. \<open>pyval\<close> is the part of Python's value universe the client touches.
  A \<open>str\<close> is a list of code points below 256, a \<open>bytes\<close> object a list of bytes; a
  \<open>float\<close> is carried as the text Python's \<open>repr\<close> prints for it; a \<open>dict\<close> is an
  association list in insertion order whose keys are \<open>str\<close> (the only dictionaries the
  client meets are decoded JSON objects and its own literals).
\<close>

datatype pyval =
    PNone
  | PBool bool
  | PInt int
  | PFloat string
  | PStr string
  | PBytes string
  | PList "pyval list"
  | PDict "(string \<times> pyval) list"

text \<open>
  The errors named by the specification. No statement of the source constructs one of
  them; they are here so that a result can be compared with them.
\<close>

datatype declared_error =
    AuthError_InvalidCredentials
  | AuthError_ChallengeRequired
  | AuthError_TokenParseFailure
  | AuthError_UnknownRegion
  | ApiError_Unauthorized
  | ApiError_HttpStatus nat
  | ApiError_MalformedResponse
  | ApiError_Timeout

text \<open>
  What a call can raise: Python's own \<open>KeyError\<close> (with the missing key) and \<open>TypeError\<close>,
  the \<open>JSONDecodeError\<close> of \<open>Response.json()\<close>, and any other exception of the HTTP
  library while it sends a request (\<open>RequestException\<close>).
\<close>

datatype exn =
    KeyError pyval
  | TypeError
  | JSONDecodeError
  | RequestException
  | Declared declared_error

subsection \<open>Subscription\<close>

text \<open>\<open>v[k]\<close> for a \<open>str\<close> key \<open>k\<close>: only a \<open>dict\<close> can be subscripted by a string.\<close>

fun getitem :: "pyval \<Rightarrow> string \<Rightarrow> exn + pyval" where
  "getitem (PDict kvs) k =
     (case map_of kvs k of None \<Rightarrow> Inl (KeyError (PStr k)) | Some x \<Rightarrow> Inr x)"
| "getitem _ k = Inl TypeError"

text \<open>Sequencing of computations that may raise.\<close>

definition and_then :: "exn + 'a \<Rightarrow> ('a \<Rightarrow> exn + 'b) \<Rightarrow> exn + 'b" where
  "and_then m f = (case m of Inl e \<Rightarrow> Inl e | Inr x \<Rightarrow> f x)"

subsection \<open>Text of a value: \<open>str\<close>, \<open>repr\<close> and f-string interpolation\<close>

definition digit_char :: "nat \<Rightarrow> char" where
  "digit_char n = ''0123456789abcdef'' ! (n mod 16)"

fun dec_nat :: "nat \<Rightarrow> string" where
  "dec_nat n = (if n < 10 then [digit_char n] else dec_nat (n div 10) @ [digit_char (n mod 10)])"

declare dec_nat.simps [simp del]

definition dec_int :: "int \<Rightarrow> string" where
  "dec_int i = (if i < 0 then CHR ''-'' # dec_nat (nat (- i)) else dec_nat (nat i))"

definition hex2 :: "nat \<Rightarrow> string" where
  "hex2 n = [digit_char ((n div 16) mod 16), digit_char (n mod 16)]"

fun join :: "string \<Rightarrow> string list \<Rightarrow> string" where
  "join sep [] = []"
| "join sep [x] = x"
| "join sep (x # y # ys) = x @ sep @ join sep (y # ys)"

text \<open>
  The quote \<open>repr\<close> puts around a string: a double quote when the text holds a single
  quote and no double quote, a single quote otherwise.
\<close>

definition repr_quote :: "string \<Rightarrow> char" where
  "repr_quote s =
     (if CHR 0x27 \<in> set s \<and> CHR 0x22 \<notin> set s then CHR 0x22 else CHR 0x27)"

text \<open>
  Code points \<open>repr\<close> of a \<open>str\<close> prints as they are: printable ASCII and the printable
  part of Latin-1.
\<close>

definition str_printable :: "nat \<Rightarrow> bool" where
  "str_printable n = ((32 \<le> n \<and> n < 127) \<or> (161 \<le> n \<and> n \<noteq> 173))"

definition bytes_printable :: "nat \<Rightarrow> bool" where
  "bytes_printable n = (32 \<le> n \<and> n < 127)"

definition repr_char :: "(nat \<Rightarrow> bool) \<Rightarrow> char \<Rightarrow> char \<Rightarrow> string" where
  "repr_char printable q c =
     (if c = q \<or> c = CHR 0x5C then [CHR 0x5C, c]
      else if c = CHR 0x09 then [CHR 0x5C, CHR ''t'']
      else if c = CHR 0x0A then [CHR 0x5C, CHR ''n'']
      else if c = CHR 0x0D then [CHR 0x5C, CHR ''r'']
      else if printable (of_char c) then [c]
      else [CHR 0x5C, CHR ''x''] @ hex2 (of_char c))"

definition repr_str :: "string \<Rightarrow> string" where
  "repr_str s = (let q = repr_quote s in [q] @ concat (map (repr_char str_printable q) s) @ [q])"

definition repr_bytes :: "string \<Rightarrow> string" where
  "repr_bytes s =
     (let q = repr_quote s in [CHR ''b'', q] @ concat (map (repr_char bytes_printable q) s) @ [q])"

fun py_repr :: "pyval \<Rightarrow> string"
  and repr_items :: "pyval list \<Rightarrow> string list"
  and repr_pairs :: "(string \<times> pyval) list \<Rightarrow> string list" where
  "py_repr PNone = ''None''"
| "py_repr (PBool b) = (if b then ''True'' else ''False'')"
| "py_repr (PInt i) = dec_int i"
| "py_repr (PFloat r) = r"
| "py_repr (PStr s) = repr_str s"
| "py_repr (PBytes s) = repr_bytes s"
| "py_repr (PList xs) = ''['' @ join '', '' (repr_items xs) @ '']''"
| "py_repr (PDict kvs) = ''{'' @ join '', '' (repr_pairs kvs) @ ''}''"
| "repr_items [] = []"
| "repr_items (x # xs) = py_repr x # repr_items xs"
| "repr_pairs [] = []"
| "repr_pairs ((k, v) # kvs) = (repr_str k @ '': '' @ py_repr v) # repr_pairs kvs"

text \<open>
  \<open>str(v)\<close>, which is also what an f-string writes for \<open>{v}\<close>: a \<open>str\<close> is written as it
  is, every other value as its \<open>repr\<close>.
\<close>

fun py_str :: "pyval \<Rightarrow> string" where
  "py_str (PStr s) = s"
| "py_str v = py_repr v"

subsection \<open>\<open>json.dumps\<close>, UTF-8 and Base64\<close>

text \<open>
  \<open>json.dumps\<close> with its default settings: separators \<open>", "\<close> and \<open>": "\<close>, and every
  character outside printable ASCII escaped. A \<open>bytes\<close> object is not serialisable.
\<close>

definition json_escape_char :: "char \<Rightarrow> string" where
  "json_escape_char c =
     (if c = CHR 0x22 then [CHR 0x5C, CHR 0x22]
      else if c = CHR 0x5C then [CHR 0x5C, CHR 0x5C]
      else if c = CHR 0x0A then [CHR 0x5C, CHR ''n'']
      else if c = CHR 0x0D then [CHR 0x5C, CHR ''r'']
      else if c = CHR 0x09 then [CHR 0x5C, CHR ''t'']
      else if c = CHR 0x08 then [CHR 0x5C, CHR ''b'']
      else if c = CHR 0x0C then [CHR 0x5C, CHR ''f'']
      else if 32 \<le> (of_char c :: nat) \<and> (of_char c :: nat) < 127 then [c]
      else [CHR 0x5C, CHR ''u'', CHR ''0'', CHR ''0''] @ hex2 (of_char c))"

definition json_string :: "string \<Rightarrow> string" where
  "json_string s = [CHR 0x22] @ concat (map json_escape_char s) @ [CHR 0x22]"

definition json_float :: "string \<Rightarrow> string" where
  "json_float r =
     (if r = ''nan'' then ''NaN'' else if r = ''inf'' then ''Infinity''
      else if r = ''-inf'' then ''-Infinity'' else r)"

fun json_dumps :: "pyval \<Rightarrow> exn + string"
  and dumps_items :: "pyval list \<Rightarrow> exn + string list"
  and dumps_pairs :: "(string \<times> pyval) list \<Rightarrow> exn + string list" where
  "json_dumps PNone = Inr ''null''"
| "json_dumps (PBool b) = Inr (if b then ''true'' else ''false'')"
| "json_dumps (PInt i) = Inr (dec_int i)"
| "json_dumps (PFloat r) = Inr (json_float r)"
| "json_dumps (PStr s) = Inr (json_string s)"
| "json_dumps (PBytes s) = Inl TypeError"
| "json_dumps (PList xs) =
     and_then (dumps_items xs) (\<lambda>ts. Inr (''['' @ join '', '' ts @ '']''))"
| "json_dumps (PDict kvs) =
     and_then (dumps_pairs kvs) (\<lambda>ts. Inr (''{'' @ join '', '' ts @ ''}''))"
| "dumps_items [] = Inr []"
| "dumps_items (x # xs) =
     and_then (json_dumps x) (\<lambda>t. and_then (dumps_items xs) (\<lambda>ts. Inr (t # ts)))"
| "dumps_pairs [] = Inr []"
| "dumps_pairs ((k, v) # kvs) =
     and_then (json_dumps v) (\<lambda>t.
       and_then (dumps_pairs kvs) (\<lambda>ts. Inr ((json_string k @ '': '' @ t) # ts)))"

text \<open>\<open>s.encode("utf-8")\<close> for code points below 256: one byte below 128, two above.\<close>

definition encode_utf8 :: "string \<Rightarrow> string" where
  "encode_utf8 s =
     concat (map (\<lambda>c. if (of_char c :: nat) < 128 then [c]
                        else [char_of (192 + (of_char c :: nat) div 64),
                              char_of (128 + (of_char c :: nat) mod 64)]) s)"

definition b64_char :: "nat \<Rightarrow> char" where
  "b64_char n =
     ''ABCDEFGHIJKLMNOPQRSTUVWXYZabcdefghijklmnopqrstuvwxyz0123456789+/'' ! (n mod 64)"

fun b64_groups :: "nat list \<Rightarrow> string" where
  "b64_groups (a # b # c # rest) =
     [b64_char (a div 4), b64_char ((a mod 4) * 16 + b div 16),
      b64_char ((b mod 16) * 4 + c div 64), b64_char (c mod 64)] @ b64_groups rest"
| "b64_groups [a, b] =
     [b64_char (a div 4), b64_char ((a mod 4) * 16 + b div 16),
      b64_char ((b mod 16) * 4), CHR ''='']"
| "b64_groups [a] = [b64_char (a div 4), b64_char ((a mod 4) * 16), CHR ''='', CHR ''='']"
| "b64_groups [] = []"

definition b64encode :: "string \<Rightarrow> string" where
  "b64encode bs = b64_groups (map of_char bs)"

section \<open>Static tables of \<open>valostore/constants.py\<close>\<close>

definition xmpp_regions :: "(string \<times> string) list" where
  "xmpp_regions =
    [(''as2'', ''as2''), (''asia'', ''jp1''), (''br1'', ''br1''), (''eu'', ''ru1''),
     (''eu3'', ''eu3''), (''eun1'', ''eu2''), (''euw1'', ''eu1''), (''jp1'', ''jp1''),
     (''kr1'', ''kr1''), (''la1'', ''la1''), (''la2'', ''la2''), (''na1'', ''na1''),
     (''oc1'', ''oc1''), (''pbe1'', ''pb1''), (''ru1'', ''ru1''), (''sea1'', ''sa1''),
     (''sea2'', ''sa2''), (''sea3'', ''sa3''), (''sea4'', ''sa4''), (''tr1'', ''tr1''),
     (''us'', ''la1''), (''us-br1'', ''br1''), (''us-la2'', ''la2''), (''us2'', ''us2'')]"

definition xmpp_servers :: "(string \<times> string) list" where
  "xmpp_servers =
    [(''as2'', ''as2.chat.si.riotgames.com''), (''asia'', ''jp1.chat.si.riotgames.com''),
     (''br1'', ''br.chat.si.riotgames.com''), (''eu'', ''ru1.chat.si.riotgames.com''),
     (''eu3'', ''eu3.chat.si.riotgames.com''), (''eun1'', ''eun1.chat.si.riotgames.com''),
     (''euw1'', ''euw1.chat.si.riotgames.com''), (''jp1'', ''jp1.chat.si.riotgames.com''),
     (''kr1'', ''kr1.chat.si.riotgames.com''), (''la1'', ''la1.chat.si.riotgames.com''),
     (''la2'', ''la2.chat.si.riotgames.com''), (''na1'', ''na2.chat.si.riotgames.com''),
     (''oc1'', ''oc1.chat.si.riotgames.com''), (''pbe1'', ''pbe1.chat.si.riotgames.com''),
     (''ru1'', ''ru1.chat.si.riotgames.com''), (''sea1'', ''sa1.chat.si.riotgames.com''),
     (''sea2'', ''sa2.chat.si.riotgames.com''), (''sea3'', ''sa3.chat.si.riotgames.com''),
     (''sea4'', ''sa4.chat.si.riotgames.com''), (''tr1'', ''tr1.chat.si.riotgames.com''),
     (''us'', ''la1.chat.si.riotgames.com''), (''us-br1'', ''br.chat.si.riotgames.com''),
     (''us-la2'', ''la2.chat.si.riotgames.com''), (''us2'', ''us2.chat.si.riotgames.com'')]"

section \<open>What \<open>valorant.py\<close> imports\<close>

text \<open>
  Modelled from the spec: the class \<open>Auth\<close> of \<open>valorant.classes\<close> is not among the
  sources. The specification's TokenSet holds an access token, an identity token and an
  entitlement token, each a string; the three getters the client calls read them.
\<close>

record Auth =
  access_token :: string
  id_token :: string
  entitlement_token :: string

definition get_access_token :: "Auth \<Rightarrow> string" where
  "get_access_token a = access_token a"

definition get_id_token :: "Auth \<Rightarrow> string" where
  "get_id_token a = id_token a"

definition get_entitlement_token :: "Auth \<Rightarrow> string" where
  "get_entitlement_token a = entitlement_token a"

text \<open>
  Modelled from the spec: the class \<open>Region\<close> of \<open>valorant.constants\<close> is not among the
  sources. The client reads its attributes \<open>region\<close> and \<open>shard\<close>, the two codes of the
  specification's RegionInfo.
\<close>

record Region =
  region :: string
  shard :: string

text \<open>
  The module \<open>valorant.constants\<close> is not among the sources either. Its URL constants,
  its path constants and its table \<open>regions\<close> are parameters of the model: every
  function below takes them as its first argument.
\<close>

record URLS =
  USERINFO_URL :: string

record API =
  CONTENT :: string
  ACCOUNT_XP :: string
  PERSONALIZATION :: string
  MMR :: string
  HISTORY :: string
  MATCHES :: string
  LEADERBOARD :: string
  PENALTIES :: string
  CONFIG :: string
  PRICES :: string
  STORE :: string
  WALLET :: string
  OWNED :: string
  PREGAME_PLAYER :: string
  PREGAME_MATCH :: string
  CURRENT_GAME_PLAYER :: string
  CURRENT_GAME_MATCH :: string
  ITEM_UPGRADES :: string
  CONTRACTS :: string

record constants =
  urls :: URLS
  api :: API
  regions :: "string \<Rightarrow> Region option"

section \<open>HTTP\<close>

text \<open>
  A request is what the client hands to the HTTP library: whether it goes through the
  client's session (\<open>self.session.get\<close>) or not (\<open>requests.get\<close>), the verb, the URL, the
  \<open>headers=\<close> dictionary, the \<open>json=\<close> body and the \<open>timeout=\<close>. Of a response the client
  can see the status and the body; \<open>decoded\<close> is the body as \<open>Response.json()\<close> would
  decode it, \<open>None\<close> when it is not JSON.
\<close>

datatype verb = GET | POST | PUT

record request =
  via_session :: bool
  verb :: verb
  url :: string
  headers :: "(string \<times> pyval) list"
  json_body :: "pyval option"
  timeout :: "nat option"

record response =
  status :: nat
  decoded :: "pyval option"

text \<open>
  The world outside the client: the requests sent so far, in order, and the lines
  printed. The servers are a function from the requests sent before and the request
  at hand to a response; \<open>None\<close> is the HTTP library raising instead of returning.
\<close>

record world =
  sent :: "request list"
  stdout :: "string list"

type_synonym server = "request list \<Rightarrow> request \<Rightarrow> response option"

type_synonym 'a io = "world \<Rightarrow> (exn + 'a) \<times> world"

definition returns :: "'a \<Rightarrow> 'a io" where
  "returns x w = (Inr x, w)"

definition lift :: "exn + 'a \<Rightarrow> 'a io" where
  "lift r w = (r, w)"

definition io_bind :: "'a io \<Rightarrow> ('a \<Rightarrow> 'b io) \<Rightarrow> 'b io" where
  "io_bind m f w = (case m w of (Inl e, w') \<Rightarrow> (Inl e, w') | (Inr x, w') \<Rightarrow> f x w')"

definition send :: "server \<Rightarrow> request \<Rightarrow> response io" where
  "send srv q w =
     ((case srv (sent w) q of None \<Rightarrow> Inl RequestException | Some r \<Rightarrow> Inr r),
      w\<lparr>sent := sent w @ [q]\<rparr>)"

definition print :: "string \<Rightarrow> unit io" where
  "print s w = (Inr (), w\<lparr>stdout := stdout w @ [s @ [CHR 0x0A]]\<rparr>)"

definition session_get :: "server \<Rightarrow> string \<Rightarrow> (string \<times> pyval) list \<Rightarrow> response io" where
  "session_get srv u hs =
     send srv \<lparr>via_session = True, verb = GET, url = u, headers = hs,
               json_body = None, timeout = None\<rparr>"

definition session_post ::
  "server \<Rightarrow> string \<Rightarrow> (string \<times> pyval) list \<Rightarrow> pyval option \<Rightarrow> response io" where
  "session_post srv u hs b =
     send srv \<lparr>via_session = True, verb = POST, url = u, headers = hs,
               json_body = b, timeout = None\<rparr>"

definition session_put ::
  "server \<Rightarrow> string \<Rightarrow> (string \<times> pyval) list \<Rightarrow> pyval option \<Rightarrow> response io" where
  "session_put srv u hs b =
     send srv \<lparr>via_session = True, verb = PUT, url = u, headers = hs,
               json_body = b, timeout = None\<rparr>"

definition requests_get ::
  "server \<Rightarrow> string \<Rightarrow> (string \<times> pyval) list \<Rightarrow> nat option \<Rightarrow> response io" where
  "requests_get srv u hs t =
     send srv \<lparr>via_session = False, verb = GET, url = u, headers = hs,
               json_body = None, timeout = t\<rparr>"

text \<open>\<open>Response.json()\<close>: the decoded body, or the decoder's exception.\<close>

definition json :: "response \<Rightarrow> exn + pyval" where
  "json r = (case decoded r of None \<Rightarrow> Inl JSONDecodeError | Some j \<Rightarrow> Inr j)"

section \<open>The class \<open>Valorant\<close>\<close>

record Valorant =
  auth :: Auth
  client_region :: Region
  pd_server :: string
  glz_server :: string
  user_info :: pyval

subsection \<open>Construction\<close>

text \<open>The two f-strings of \<open>__init__\<close> that build the base URLs from the region.\<close>

definition pd_server_url :: "'a Region_scheme \<Rightarrow> string" where
  "pd_server_url r = ''https://pd.'' @ region r @ ''.a.pvp.net''"

definition glz_server_url :: "'a Region_scheme \<Rightarrow> string" where
  "glz_server_url r = ''https://glz-'' @ region r @ ''-1.'' @ shard r @ ''.a.pvp.net''"

text \<open>
  \<open>regions[key]\<close>: the table's keys are region codes, so a key that is no \<open>str\<close> is
  never found; a \<open>list\<close> or a \<open>dict\<close> cannot even be hashed.
\<close>

fun regions_getitem :: "(string \<Rightarrow> Region option) \<Rightarrow> pyval \<Rightarrow> exn + Region" where
  "regions_getitem tbl (PStr s) =
     (case tbl s of None \<Rightarrow> Inl (KeyError (PStr s)) | Some r \<Rightarrow> Inr r)"
| "regions_getitem tbl (PList xs) = Inl TypeError"
| "regions_getitem tbl (PDict kvs) = Inl TypeError"
| "regions_getitem tbl v = Inl (KeyError v)"

definition get_region :: "constants \<Rightarrow> server \<Rightarrow> Auth \<Rightarrow> Region io" where
  "get_region K srv a =
     io_bind (session_put srv ''https://riot-geo.pas.si.riotgames.com/pas/v1/product/valorant''
                [(''Content-Type'', PStr ''application/json''),
                 (''Authorization'', PStr (''Bearer '' @ get_access_token a))]
                (Some (PDict [(''id_token'', PStr (get_id_token a))])))
       (\<lambda>r. lift (and_then (json r) (\<lambda>a.
               and_then (getitem a ''affinities'') (\<lambda>affinities.
               and_then (getitem affinities ''live'') (\<lambda>live.
                 regions_getitem (regions K) live)))))"

definition get_user_info :: "constants \<Rightarrow> server \<Rightarrow> Auth \<Rightarrow> pyval io" where
  "get_user_info K srv a =
     io_bind (session_post srv (USERINFO_URL (urls K))
                [(''Content-Type'', PStr ''application/json''),
                 (''Authorization'', PStr (''Bearer '' @ get_access_token a))]
                (Some (PDict [])))
       (\<lambda>r. lift (json r))"

text \<open>
  The last four statements of \<open>__init__\<close>, from the region lookup on. What comes before
  them (the session, the \<open>Auth\<close> object, the login) is the work of the missing class
  \<open>Auth\<close>; \<open>a\<close> is that object once the login is done.
\<close>

definition init_routing :: "constants \<Rightarrow> server \<Rightarrow> Auth \<Rightarrow> Valorant io" where
  "init_routing K srv a =
     io_bind (get_region K srv a) (\<lambda>reg.
     io_bind (get_user_info K srv a) (\<lambda>info.
       returns \<lparr>auth = a, client_region = reg, pd_server = pd_server_url reg,
                glz_server = glz_server_url reg, user_info = info\<rparr>))"

subsection \<open>Properties\<close>

definition client_platform :: "Valorant \<Rightarrow> exn + string" where
  "client_platform v =
     and_then (json_dumps (PDict
        [(''platformType'', PStr ''PC''),
         (''platformOS'', PStr ''Windows''),
         (''platformOSVersion'', PStr ''10.0.19042.1.256.64bit''),
         (''platformChipset'', PStr ''Unknown'')]))
       (\<lambda>s. Inr (b64encode (encode_utf8 s)))"

definition version_request :: request where
  "version_request =
     \<lparr>via_session = False, verb = GET, url = ''https://valorant-api.com/v1/version'',
      headers = [], json_body = None, timeout = Some 30\<rparr>"

definition client_version :: "server \<Rightarrow> pyval io" where
  "client_version srv =
     io_bind (requests_get srv ''https://valorant-api.com/v1/version'' [] (Some 30))
       (\<lambda>r. lift (and_then (json r) (\<lambda>j.
               and_then (getitem j ''data'') (\<lambda>d. getitem d ''riotClientVersion''))))"

subsection \<open>Endpoint methods\<close>

text \<open>
  Every method builds its URL first, then its \<open>headers=\<close> dictionary entry by entry,
  then sends; the model keeps that order, since reading \<open>self.user_info['sub']\<close> can
  raise and reading \<open>self.client_version\<close> sends a request of its own.
  \<open>bearer\<close> is the f-string \<open>f"Bearer {self.auth.get_access_token()}"\<close>.
\<close>

definition bearer :: "Valorant \<Rightarrow> pyval" where
  "bearer v = PStr (''Bearer '' @ py_str (PStr (get_access_token (auth v))))"

text \<open>An optional argument as the Python value it is.\<close>

definition opt_str :: "string option \<Rightarrow> pyval" where
  "opt_str x = (case x of None \<Rightarrow> PNone | Some s \<Rightarrow> PStr s)"

definition opt_int :: "int option \<Rightarrow> pyval" where
  "opt_int x = (case x of None \<Rightarrow> PNone | Some i \<Rightarrow> PInt i)"

text \<open>Truth value of a \<open>str | None\<close>: \<open>None\<close> and the empty string are false.\<close>

definition truthy :: "string option \<Rightarrow> bool" where
  "truthy x = (case x of None \<Rightarrow> False | Some s \<Rightarrow> s \<noteq> [])"

definition get_content :: "constants \<Rightarrow> server \<Rightarrow> Valorant \<Rightarrow> pyval io" where
  "get_content K srv v =
     io_bind (lift (client_platform v)) (\<lambda>platform.
     io_bind (client_version srv) (\<lambda>version.
     io_bind (session_get srv (pd_server v @ CONTENT (api K))
         [(''X-Riot-ClientPlatform'', PStr (py_str (PBytes platform))),
          (''X-Riot-ClientVersion'', PStr (py_str version)),
          (''X-Riot-Entitlements-JWT'', PStr (py_str (PStr (get_entitlement_token (auth v))))),
          (''Authorization'', bearer v)])
       (\<lambda>r. lift (json r))))"

definition get_account_xp :: "constants \<Rightarrow> server \<Rightarrow> Valorant \<Rightarrow> pyval io" where
  "get_account_xp K srv v =
     io_bind (lift (getitem (user_info v) ''sub'')) (\<lambda>sub.
     io_bind (session_get srv (pd_server v @ ACCOUNT_XP (api K) @ ''/'' @ py_str sub)
         [(''X-Riot-Entitlements-JWT'', PStr (get_entitlement_token (auth v))),
          (''Authorization'', bearer v)])
       (\<lambda>r. lift (json r)))"

definition get_loadout :: "constants \<Rightarrow> server \<Rightarrow> Valorant \<Rightarrow> pyval io" where
  "get_loadout K srv v =
     io_bind (lift (getitem (user_info v) ''sub'')) (\<lambda>sub.
     io_bind (session_get srv
         (pd_server v @ PERSONALIZATION (api K) @ ''/'' @ py_str sub @ ''/playerloadout'')
         [(''X-Riot-Entitlements-JWT'', PStr (get_entitlement_token (auth v))),
          (''Authorization'', bearer v)])
       (\<lambda>r. lift (json r)))"

definition set_loadout :: "constants \<Rightarrow> server \<Rightarrow> Valorant \<Rightarrow> pyval \<Rightarrow> pyval io" where
  "set_loadout K srv v loadout =
     io_bind (lift (getitem (user_info v) ''sub'')) (\<lambda>sub.
     io_bind (session_put srv
         (pd_server v @ PERSONALIZATION (api K) @ ''/'' @ py_str sub @ ''/playerloadout'')
         [(''X-Riot-Entitlements-JWT'', PStr (get_entitlement_token (auth v))),
          (''Authorization'', bearer v)]
         (Some loadout))
       (\<lambda>r. returns PNone))"

definition get_player_mmr ::
  "constants \<Rightarrow> server \<Rightarrow> Valorant \<Rightarrow> string option \<Rightarrow> pyval io" where
  "get_player_mmr K srv v player_id =
     io_bind (case player_id of
                None \<Rightarrow> lift (getitem (user_info v) ''sub'')
              | Some p \<Rightarrow> returns (PStr p)) (\<lambda>player_id.
     io_bind (lift (client_platform v)) (\<lambda>platform.
     io_bind (client_version srv) (\<lambda>version.
     io_bind (session_get srv (pd_server v @ MMR (api K) @ ''/'' @ py_str player_id)
         [(''X-Riot-ClientPlatform'', PBytes platform),
          (''X-Riot-ClientVersion'', version),
          (''X-Riot-Entitlements-JWT'', PStr (get_entitlement_token (auth v))),
          (''Authorization'', bearer v)])
       (\<lambda>r. lift (json r)))))"

definition get_match_history ::
  "constants \<Rightarrow> server \<Rightarrow> Valorant \<Rightarrow> string option \<Rightarrow> int option \<Rightarrow> int option \<Rightarrow> pyval io" where
  "get_match_history K srv v player_id offset amount =
     io_bind (case player_id of
                None \<Rightarrow> lift (getitem (user_info v) ''sub'')
              | Some p \<Rightarrow> returns (PStr p)) (\<lambda>player_id.
     io_bind (session_get srv
         (pd_server v @ HISTORY (api K) @ ''/'' @ py_str player_id
            @ ''?startIndex='' @ py_str (opt_int offset)
            @ ''&endIndex='' @ py_str (opt_int amount))
         [(''X-Riot-Entitlements-JWT'', PStr (get_entitlement_token (auth v))),
          (''Authorization'', bearer v)])
       (\<lambda>r. lift (json r)))"

definition get_match_details ::
  "constants \<Rightarrow> server \<Rightarrow> Valorant \<Rightarrow> string \<Rightarrow> pyval io" where
  "get_match_details K srv v match_id =
     io_bind (session_get srv (pd_server v @ MATCHES (api K) @ ''/'' @ py_str (PStr match_id))
         [(''X-Riot-Entitlements-JWT'', PStr (get_entitlement_token (auth v))),
          (''Authorization'', bearer v)])
       (\<lambda>r. lift (json r))"

text \<open>
  In \<open>get_leaderboard\<close> the URL is the expression
  \<open>f"...{amount}" + f"&query={username}" if username else ""\<close>. The conditional binds
  weaker than \<open>+\<close>, so Python reads it as
  \<open>(f"...{amount}" + f"&query={username}") if username else ""\<close>.
\<close>

definition get_leaderboard ::
  "constants \<Rightarrow> server \<Rightarrow> Valorant \<Rightarrow> string \<Rightarrow> int \<Rightarrow> int \<Rightarrow> string option \<Rightarrow> pyval io" where
  "get_leaderboard K srv v season_id start amount username =
     io_bind (returns
         (if truthy username
          then (pd_server v @ LEADERBOARD (api K) @ ''/'' @ py_str (PStr season_id)
                  @ ''?startIndex='' @ py_str (PInt start) @ ''&size='' @ py_str (PInt amount))
               @ (''&query='' @ py_str (opt_str username))
          else [])) (\<lambda>u.
     io_bind (client_version srv) (\<lambda>version.
     io_bind (session_get srv u
         [(''X-Riot-ClientVersion'', version),
          (''X-Riot-Entitlements-JWT'', PStr (get_entitlement_token (auth v))),
          (''Authorization'', bearer v)])
       (\<lambda>r. lift (json r))))"

definition get_penalties :: "constants \<Rightarrow> server \<Rightarrow> Valorant \<Rightarrow> pyval io" where
  "get_penalties K srv v =
     io_bind (lift (client_platform v)) (\<lambda>platform.
     io_bind (session_get srv (pd_server v @ PENALTIES (api K))
         [(''X-Riot-ClientPlatform'', PBytes platform),
          (''X-Riot-Entitlements-JWT'', PStr (get_entitlement_token (auth v))),
          (''Authorization'', bearer v)])
       (\<lambda>r. lift (json r)))"

definition get_config :: "constants \<Rightarrow> server \<Rightarrow> Valorant \<Rightarrow> pyval io" where
  "get_config K srv v =
     io_bind (session_get srv
         (pd_server v @ CONFIG (api K) @ ''/'' @ py_str (PStr (region (client_region v))))
         [(''X-Riot-Entitlements-JWT'', PStr (get_entitlement_token (auth v))),
          (''Authorization'', bearer v)])
       (\<lambda>r. lift (json r))"

definition get_prices :: "constants \<Rightarrow> server \<Rightarrow> Valorant \<Rightarrow> pyval io" where
  "get_prices K srv v =
     io_bind (session_get srv (pd_server v @ PRICES (api K))
         [(''X-Riot-Entitlements-JWT'', PStr (get_entitlement_token (auth v))),
          (''Authorization'', bearer v)])
       (\<lambda>r. lift (json r))"

definition get_store :: "constants \<Rightarrow> server \<Rightarrow> Valorant \<Rightarrow> pyval io" where
  "get_store K srv v =
     io_bind (lift (getitem (user_info v) ''sub'')) (\<lambda>sub.
     io_bind (lift (client_platform v)) (\<lambda>platform.
     io_bind (client_version srv) (\<lambda>version.
     io_bind (requests_get srv (pd_server v @ STORE (api K) @ ''/'' @ py_str sub)
         [(''Authorization'', bearer v),
          (''X-Riot-Entitlements-JWT'', PStr (get_entitlement_token (auth v))),
          (''X-Riot-ClientPlatform'', PBytes platform),
          (''X-Riot-ClientVersion'', version),
          (''Content-Type'', PStr ''application/json'')]
         None)
       (\<lambda>r. lift (json r)))))"

definition get_wallet :: "constants \<Rightarrow> server \<Rightarrow> Valorant \<Rightarrow> pyval io" where
  "get_wallet K srv v =
     io_bind (lift (getitem (user_info v) ''sub'')) (\<lambda>sub.
     io_bind (session_get srv (pd_server v @ WALLET (api K) @ ''/'' @ py_str sub)
         [(''X-Riot-Entitlements-JWT'', PStr (get_entitlement_token (auth v))),
          (''Authorization'', bearer v)])
       (\<lambda>r. lift (json r)))"

definition get_items :: "constants \<Rightarrow> server \<Rightarrow> Valorant \<Rightarrow> string \<Rightarrow> pyval io" where
  "get_items K srv v item_type =
     io_bind (lift (getitem (user_info v) ''sub'')) (\<lambda>sub.
     io_bind (session_get srv
         (pd_server v @ OWNED (api K) @ ''/'' @ py_str sub @ ''/'' @ py_str (PStr item_type))
         [(''X-Riot-Entitlements-JWT'', PStr (get_entitlement_token (auth v))),
          (''Authorization'', bearer v)])
       (\<lambda>r. lift (json r)))"

definition get_pregame_id ::
  "constants \<Rightarrow> server \<Rightarrow> Valorant \<Rightarrow> string option \<Rightarrow> pyval io" where
  "get_pregame_id K srv v player_id =
     io_bind (case player_id of
                None \<Rightarrow> lift (getitem (user_info v) ''sub'')
              | Some p \<Rightarrow> returns (PStr p)) (\<lambda>player_id.
     io_bind (session_get srv (glz_server v @ PREGAME_PLAYER (api K) @ ''/'' @ py_str player_id)
         [(''X-Riot-Entitlements-JWT'', PStr (get_entitlement_token (auth v))),
          (''Authorization'', bearer v)])
       (\<lambda>r. lift (json r)))"

definition get_pregame_match ::
  "constants \<Rightarrow> server \<Rightarrow> Valorant \<Rightarrow> string option \<Rightarrow> pyval io" where
  "get_pregame_match K srv v pregame_match_id =
     io_bind (case pregame_match_id of
                None \<Rightarrow> io_bind (get_pregame_id K srv v None) (\<lambda>d. lift (getitem d ''MatchID''))
              | Some m \<Rightarrow> returns (PStr m)) (\<lambda>pregame_match_id.
     io_bind (session_get srv
         (glz_server v @ PREGAME_MATCH (api K) @ ''/'' @ py_str pregame_match_id)
         [(''X-Riot-Entitlements-JWT'', PStr (get_entitlement_token (auth v))),
          (''Authorization'', bearer v)])
       (\<lambda>r. lift (json r)))"

definition get_pregame_loadout ::
  "constants \<Rightarrow> server \<Rightarrow> Valorant \<Rightarrow> string option \<Rightarrow> pyval io" where
  "get_pregame_loadout K srv v pregame_match_id =
     io_bind (case pregame_match_id of
                None \<Rightarrow> io_bind (get_pregame_id K srv v None) (\<lambda>d. lift (getitem d ''MatchID''))
              | Some m \<Rightarrow> returns (PStr m)) (\<lambda>pregame_match_id.
     io_bind (session_get srv
         (glz_server v @ PREGAME_MATCH (api K) @ ''/'' @ py_str pregame_match_id @ ''/loadouts'')
         [(''X-Riot-Entitlements-JWT'', PStr (get_entitlement_token (auth v))),
          (''Authorization'', bearer v)])
       (\<lambda>r. lift (json r)))"

definition select_agent ::
  "constants \<Rightarrow> server \<Rightarrow> Valorant \<Rightarrow> string \<Rightarrow> string option \<Rightarrow> pyval io" where
  "select_agent K srv v agent_id pregame_match_id =
     io_bind (case pregame_match_id of
                None \<Rightarrow> get_pregame_id K srv v None
              | Some m \<Rightarrow> returns (PStr m)) (\<lambda>pregame_match_id.
     io_bind (session_post srv
         (glz_server v @ MATCHES (api K) @ ''/'' @ py_str pregame_match_id
            @ ''/select/'' @ py_str (PStr agent_id))
         [(''X-Riot-Entitlements-JWT'', PStr (get_entitlement_token (auth v))),
          (''Authorization'', bearer v)]
         None)
       (\<lambda>r. lift (json r)))"

definition lock_agent ::
  "constants \<Rightarrow> server \<Rightarrow> Valorant \<Rightarrow> string \<Rightarrow> string option \<Rightarrow> pyval io" where
  "lock_agent K srv v agent_id pregame_match_id =
     io_bind (case pregame_match_id of
                None \<Rightarrow> get_pregame_id K srv v None
              | Some m \<Rightarrow> returns (PStr m)) (\<lambda>pregame_match_id.
     io_bind (session_post srv
         (glz_server v @ MATCHES (api K) @ ''/'' @ py_str pregame_match_id
            @ ''/lock/'' @ py_str (PStr agent_id))
         [(''X-Riot-Entitlements-JWT'', PStr (get_entitlement_token (auth v))),
          (''Authorization'', bearer v)]
         None)
       (\<lambda>r. lift (json r)))"

definition quit_pregame ::
  "constants \<Rightarrow> server \<Rightarrow> Valorant \<Rightarrow> string option \<Rightarrow> pyval io" where
  "quit_pregame K srv v pregame_match_id =
     io_bind (case pregame_match_id of
                None \<Rightarrow> get_pregame_id K srv v None
              | Some m \<Rightarrow> returns (PStr m)) (\<lambda>pregame_match_id.
     io_bind (session_post srv
         (glz_server v @ MATCHES (api K) @ ''/'' @ py_str pregame_match_id @ ''/quit'')
         [(''X-Riot-Entitlements-JWT'', PStr (get_entitlement_token (auth v))),
          (''Authorization'', bearer v)]
         None)
       (\<lambda>r. lift (json r)))"

definition get_current_game_player ::
  "constants \<Rightarrow> server \<Rightarrow> Valorant \<Rightarrow> string option \<Rightarrow> pyval io" where
  "get_current_game_player K srv v player_id =
     io_bind (case player_id of
                None \<Rightarrow> lift (getitem (user_info v) ''sub'')
              | Some p \<Rightarrow> returns (PStr p)) (\<lambda>player_id.
     io_bind (print (glz_server v @ CURRENT_GAME_PLAYER (api K) @ ''/'' @ py_str player_id))
       (\<lambda>u.
     io_bind (session_get srv
         (glz_server v @ CURRENT_GAME_PLAYER (api K) @ ''/'' @ py_str player_id)
         [(''X-Riot-Entitlements-JWT'', PStr (get_entitlement_token (auth v))),
          (''Authorization'', bearer v)])
       (\<lambda>r. lift (json r))))"

definition get_current_game_match ::
  "constants \<Rightarrow> server \<Rightarrow> Valorant \<Rightarrow> string option \<Rightarrow> pyval io" where
  "get_current_game_match K srv v current_match_id =
     io_bind (case current_match_id of
                None \<Rightarrow> io_bind (get_pregame_id K srv v None) (\<lambda>d. lift (getitem d ''MatchID''))
              | Some m \<Rightarrow> returns (PStr m)) (\<lambda>current_match_id.
     io_bind (session_get srv
         (glz_server v @ CURRENT_GAME_MATCH (api K) @ ''/'' @ py_str current_match_id)
         [(''X-Riot-Entitlements-JWT'', PStr (get_entitlement_token (auth v))),
          (''Authorization'', bearer v)])
       (\<lambda>r. lift (json r)))"

definition get_current_game_loadout ::
  "constants \<Rightarrow> server \<Rightarrow> Valorant \<Rightarrow> string option \<Rightarrow> pyval io" where
  "get_current_game_loadout K srv v current_match_id =
     io_bind (case current_match_id of
                None \<Rightarrow> io_bind (get_pregame_id K srv v None) (\<lambda>d. lift (getitem d ''MatchID''))
              | Some m \<Rightarrow> returns (PStr m)) (\<lambda>current_match_id.
     io_bind (session_get srv
         (glz_server v @ CURRENT_GAME_MATCH (api K) @ ''/'' @ py_str current_match_id
            @ ''/loadouts'')
         [(''X-Riot-Entitlements-JWT'', PStr (get_entitlement_token (auth v))),
          (''Authorization'', bearer v)])
       (\<lambda>r. lift (json r)))"

definition get_item_upgrades :: "constants \<Rightarrow> server \<Rightarrow> Valorant \<Rightarrow> pyval io" where
  "get_item_upgrades K srv v =
     io_bind (session_get srv (pd_server v @ ITEM_UPGRADES (api K))
         [(''X-Riot-Entitlements-JWT'', PStr (get_entitlement_token (auth v))),
          (''Authorization'', bearer v)])
       (\<lambda>r. lift (json r))"

definition get_contracts ::
  "constants \<Rightarrow> server \<Rightarrow> Valorant \<Rightarrow> string option \<Rightarrow> pyval io" where
  "get_contracts K srv v player_id =
     io_bind (case player_id of
                None \<Rightarrow> lift (getitem (user_info v) ''sub'')
              | Some p \<Rightarrow> returns (PStr p)) (\<lambda>player_id.
     io_bind (client_version srv) (\<lambda>version.
     io_bind (session_get srv (pd_server v @ CONTRACTS (api K) @ ''/'' @ py_str player_id)
         [(''X-Riot-ClientVersion'', version),
          (''X-Riot-Entitlements-JWT'', PStr (get_entitlement_token (auth v))),
          (''Authorization'', bearer v)])
       (\<lambda>r. lift (json r))))"

text \<open>
  A call of one of the methods above, as data: the methods whose request goes to the
  \<open>pd\<close> or the \<open>glz\<close> server. (\<open>get_border_level\<close> only chains \<open>get_match_history\<close> and
  \<open>get_match_details\<close> and then asks a public server; \<open>get_xmpp_socket\<close> is empty.)
\<close>

datatype method_call =
    Get_content
  | Get_account_xp
  | Get_loadout
  | Set_loadout pyval
  | Get_player_mmr "string option"
  | Get_match_history "string option" "int option" "int option"
  | Get_match_details string
  | Get_leaderboard string int int "string option"
  | Get_penalties
  | Get_config
  | Get_prices
  | Get_store
  | Get_wallet
  | Get_items string
  | Get_pregame_id "string option"
  | Get_pregame_match "string option"
  | Get_pregame_loadout "string option"
  | Select_agent string "string option"
  | Lock_agent string "string option"
  | Quit_pregame "string option"
  | Get_current_game_player "string option"
  | Get_current_game_match "string option"
  | Get_current_game_loadout "string option"
  | Get_item_upgrades
  | Get_contracts "string option"

fun call :: "constants \<Rightarrow> server \<Rightarrow> Valorant \<Rightarrow> method_call \<Rightarrow> pyval io" where
  "call K srv v Get_content = get_content K srv v"
| "call K srv v Get_account_xp = get_account_xp K srv v"
| "call K srv v Get_loadout = get_loadout K srv v"
| "call K srv v (Set_loadout l) = set_loadout K srv v l"
| "call K srv v (Get_player_mmr p) = get_player_mmr K srv v p"
| "call K srv v (Get_match_history p off n) = get_match_history K srv v p off n"
| "call K srv v (Get_match_details m) = get_match_details K srv v m"
| "call K srv v (Get_leaderboard s st n u) = get_leaderboard K srv v s st n u"
| "call K srv v Get_penalties = get_penalties K srv v"
| "call K srv v Get_config = get_config K srv v"
| "call K srv v Get_prices = get_prices K srv v"
| "call K srv v Get_store = get_store K srv v"
| "call K srv v Get_wallet = get_wallet K srv v"
| "call K srv v (Get_items t) = get_items K srv v t"
| "call K srv v (Get_pregame_id p) = get_pregame_id K srv v p"
| "call K srv v (Get_pregame_match m) = get_pregame_match K srv v m"
| "call K srv v (Get_pregame_loadout m) = get_pregame_loadout K srv v m"
| "call K srv v (Select_agent a m) = select_agent K srv v a m"
| "call K srv v (Lock_agent a m) = lock_agent K srv v a m"
| "call K srv v (Quit_pregame m) = quit_pregame K srv v m"
| "call K srv v (Get_current_game_player p) = get_current_game_player K srv v p"
| "call K srv v (Get_current_game_match m) = get_current_game_match K srv v m"
| "call K srv v (Get_current_game_loadout m) = get_current_game_loadout K srv v m"
| "call K srv v Get_item_upgrades = get_item_upgrades K srv v"
| "call K srv v (Get_contracts p) = get_contracts K srv v p"

section \<open>Sample values\<close>

text \<open>
  Concrete constants, tokens, a client and some servers, on which the theorems below
  are exercised. The paths stand for the missing constants; any other strings would do.
\<close>

definition sample_api :: API where
  "sample_api =
     \<lparr>CONTENT = ''/content-service/v3/content'',
      ACCOUNT_XP = ''/account-xp/v1/players'',
      PERSONALIZATION = ''/personalization/v2/players'',
      MMR = ''/mmr/v1/players'',
      HISTORY = ''/match-history/v1/history'',
      MATCHES = ''/match-details/v1/matches'',
      LEADERBOARD = ''/mmr/v1/leaderboards/affinity/na/queue/competitive/season'',
      PENALTIES = ''/restrictions/v3/penalties'',
      CONFIG = ''/v1/config'',
      PRICES = ''/store/v1/offers'',
      STORE = ''/store/v2/storefront'',
      WALLET = ''/store/v1/wallet'',
      OWNED = ''/store/v1/entitlements'',
      PREGAME_PLAYER = ''/pregame/v1/players'',
      PREGAME_MATCH = ''/pregame/v1/matches'',
      CURRENT_GAME_PLAYER = ''/core-game/v1/players'',
      CURRENT_GAME_MATCH = ''/core-game/v1/matches'',
      ITEM_UPGRADES = ''/contract-definitions/v3/item-upgrades'',
      CONTRACTS = ''/contracts/v1/contracts''\<rparr>"

definition sample_constants :: constants where
  "sample_constants =
     \<lparr>urls = \<lparr>USERINFO_URL = ''https://auth.riotgames.com/userinfo''\<rparr>,
      api = sample_api,
      regions = map_of [(''na1'', \<lparr>region = ''na1'', shard = ''na1''\<rparr>),
                        (''latam'', \<lparr>region = ''latam'', shard = ''na''\<rparr>)]\<rparr>"

definition sample_auth :: Auth where
  "sample_auth = \<lparr>access_token = ''acc'', id_token = ''idt'', entitlement_token = ''ent''\<rparr>"

definition sample_client :: Valorant where
  "sample_client =
     \<lparr>auth = sample_auth,
      client_region = \<lparr>region = ''na1'', shard = ''na1''\<rparr>,
      pd_server = ''https://pd.na1.a.pvp.net'',
      glz_server = ''https://glz-na1-1.na1.a.pvp.net'',
      user_info = PDict [(''sub'', PStr ''player-1'')]\<rparr>"

definition fresh :: world where
  "fresh = \<lparr>sent = [], stdout = []\<rparr>"

definition ok :: "pyval \<Rightarrow> response option" where
  "ok j = Some \<lparr>status = 200, decoded = Some j\<rparr>"

definition version_body :: pyval where
  "version_body = PDict [(''data'', PDict [(''riotClientVersion'', PStr ''release-09.00'')])]"

text \<open>
  Sample servers. All answer the version lookup. \<open>expired_backend\<close> answers the first
  request to any other URL with 401 and a later one to the same URL with 200;
  \<open>lenient_backend\<close> gives the same bodies with status 200 throughout; \<open>geo_backend\<close>
  reports the given affinity code; \<open>garbled_backend\<close> answers 200 with a body that is
  not JSON; \<open>pregame_backend\<close> answers every other request with one pre-game match id.
\<close>

definition expired_backend :: server where
  "expired_backend h q =
     (if url q = ''https://valorant-api.com/v1/version'' then ok version_body
      else if filter (\<lambda>p. url p = url q) h = []
      then Some \<lparr>status = 401, decoded = Some (PDict [(''errorCode'', PStr ''BAD_CLAIMS'')])\<rparr>
      else ok (PDict [(''Characters'', PList [])]))"

definition lenient_backend :: server where
  "lenient_backend h q =
     (if url q = ''https://valorant-api.com/v1/version'' then ok version_body
      else if filter (\<lambda>p. url p = url q) h = []
      then ok (PDict [(''errorCode'', PStr ''BAD_CLAIMS'')])
      else ok (PDict [(''Characters'', PList [])]))"

definition geo_backend :: "string \<Rightarrow> server" where
  "geo_backend code h q =
     (if url q = ''https://riot-geo.pas.si.riotgames.com/pas/v1/product/valorant''
      then ok (PDict [(''affinities'', PDict [(''live'', PStr code)])])
      else ok (PDict [(''sub'', PStr ''player-1'')]))"

definition garbled_backend :: server where
  "garbled_backend h q =
     (if url q = ''https://valorant-api.com/v1/version'' then ok version_body
      else Some \<lparr>status = 200, decoded = None\<rparr>)"

definition pregame_backend :: server where
  "pregame_backend h q =
     (if url q = ''https://valorant-api.com/v1/version'' then ok version_body
      else ok (PDict [(''MatchID'', PStr ''abc'')]))"

section \<open>Predicates on calls\<close>

definition carries_tokens :: "Valorant \<Rightarrow> request \<Rightarrow> bool" where
  "carries_tokens v q =
     (map_of (headers q) ''Authorization'' = Some (PStr (''Bearer '' @ get_access_token (auth v))) \<and>
      map_of (headers q) ''X-Riot-Entitlements-JWT'' = Some (PStr (get_entitlement_token (auth v))))"

definition sends_only :: "(request \<Rightarrow> bool) \<Rightarrow> 'a io \<Rightarrow> bool" where
  "sends_only P m = (\<forall>w. \<exists>new. sent (snd (m w)) = sent w @ new \<and> list_all P new)"

definition undeclared :: "exn + 'a \<Rightarrow> bool" where
  "undeclared r = (\<forall>e. r \<noteq> Inl (Declared e))"

definition raises_undeclared :: "'a io \<Rightarrow> bool" where
  "raises_undeclared m = (\<forall>w. undeclared (fst (m w)))"

text \<open>
  \<open>routed v q\<close>: the URL of \<open>q\<close> starts with one of the two base URLs of the client, or is the
  empty URL \<open>get_leaderboard\<close> can produce. \<open>sends_last P m\<close>: whatever the world, \<open>m\<close> sends
  at least one request and the last one satisfies \<open>P\<close>. \<open>returns_after P m\<close>: the same,
  unless \<open>m\<close> raises. \<open>succeeds m\<close>: \<open>m\<close> never raises; \<open>extends m\<close>: \<open>m\<close> only appends to the
  requests sent.
\<close>

definition routed :: "Valorant \<Rightarrow> request \<Rightarrow> bool" where
  "routed v q =
     ((\<exists>rest. url q = pd_server v @ rest) \<or> (\<exists>rest. url q = glz_server v @ rest) \<or> url q = [])"

definition sends_last :: "(request \<Rightarrow> bool) \<Rightarrow> 'a io \<Rightarrow> bool" where
  "sends_last P m = (\<forall>w. \<exists>pre q. sent (snd (m w)) = sent w @ pre @ [q] \<and> P q)"

definition succeeds :: "'a io \<Rightarrow> bool" where
  "succeeds m = (\<forall>w. \<exists>x w' new. m w = (Inr x, w') \<and> sent w' = sent w @ new)"

definition returns_after :: "(request \<Rightarrow> bool) \<Rightarrow> 'a io \<Rightarrow> bool" where
  "returns_after P m =
     (\<forall>w. (\<exists>e. fst (m w) = Inl e) \<or> (\<exists>pre q. sent (snd (m w)) = sent w @ pre @ [q] \<and> P q))"

definition extends :: "'a io \<Rightarrow> bool" where
  "extends m = (\<forall>w. \<exists>new. sent (snd (m w)) = sent w @ new)"

section \<open>The static tables\<close>

text \<open>
  Claim C10. The two chat routing tables of \<open>valostore/constants.py\<close> have the same
  keys: a region code has an entry in \<open>xmpp_regions\<close> exactly when it has one in
  \<open>xmpp_servers\<close>.
\<close>

theorem xmpp_tables_key_consistent:
  "dom (map_of xmpp_regions) = dom (map_of xmpp_servers)"
  by (simp add: dom_map_of_conv_image_fst xmpp_regions_def xmpp_servers_def)

section \<open>The base URLs\<close>

text \<open>
  Claim C2. For the region whose region code and shard code are both \<open>na1\<close>, the two
  f-strings give the account base URL \<open>https://pd.na1.a.pvp.net\<close> and the live base URL
  \<open>https://glz-na1-1.na1.a.pvp.net\<close>.
\<close>

theorem na1_base_urls:
  "pd_server_url \<lparr>region = ''na1'', shard = ''na1''\<rparr> = ''https://pd.na1.a.pvp.net'' \<and>
   glz_server_url \<lparr>region = ''na1'', shard = ''na1''\<rparr> = ''https://glz-na1-1.na1.a.pvp.net''"
  by (simp add: pd_server_url_def glz_server_url_def)

section \<open>The client platform\<close>

text \<open>The JSON text \<open>json.dumps\<close> writes for the platform dictionary.\<close>

lemma platform_json:
  "json_dumps (PDict
        [(''platformType'', PStr ''PC''),
         (''platformOS'', PStr ''Windows''),
         (''platformOSVersion'', PStr ''10.0.19042.1.256.64bit''),
         (''platformChipset'', PStr ''Unknown'')]) =
   Inr ([CHR ''{'', CHR 0x22] @ ''platformType'' @ [CHR 0x22] @ '': '' @
        [CHR 0x22] @ ''PC'' @ [CHR 0x22] @ '', '' @
        [CHR 0x22] @ ''platformOS'' @ [CHR 0x22] @ '': '' @
        [CHR 0x22] @ ''Windows'' @ [CHR 0x22] @ '', '' @
        [CHR 0x22] @ ''platformOSVersion'' @ [CHR 0x22] @ '': '' @
        [CHR 0x22] @ ''10.0.19042.1.256.64bit'' @ [CHR 0x22] @ '', '' @
        [CHR 0x22] @ ''platformChipset'' @ [CHR 0x22] @ '': '' @
        [CHR 0x22] @ ''Unknown'' @ [CHR 0x22] @ ''}'')"
  by code_simp

lemma client_platform_value:
  "client_platform v =
     Inr ''eyJwbGF0Zm9ybVR5cGUiOiAiUEMiLCAicGxhdGZvcm1PUyI6ICJXaW5kb3dzIiwgInBsYXRmb3JtT1NWZXJzaW9uIjogIjEwLjAuMTkwNDIuMS4yNTYuNjRiaXQiLCAicGxhdGZvcm1DaGlwc2V0IjogIlVua25vd24ifQ==''"
  unfolding client_platform_def by code_simp

text \<open>
  Claim C7. The property \<open>client_platform\<close> returns the same byte string for every
  client, whatever its user and state: the Base64 encoding of the JSON text of the fixed
  dictionary that describes the Windows PC platform.
\<close>

theorem client_platform_constant:
  "client_platform v =
     Inr ''eyJwbGF0Zm9ybVR5cGUiOiAiUEMiLCAicGxhdGZvcm1PUyI6ICJXaW5kb3dzIiwgInBsYXRmb3JtT1NWZXJzaW9uIjogIjEwLjAuMTkwNDIuMS4yNTYuNjRiaXQiLCAicGxhdGZvcm1DaGlwc2V0IjogIlVua25vd24ifQ==''"
  by (rule client_platform_value)

section \<open>Calls, requests and results\<close>

subsection \<open>The requests a call sends\<close>

lemma sends_only_returns: "sends_only P (returns x)"
  by (simp add: sends_only_def returns_def)

lemma sends_only_lift: "sends_only P (lift r)"
  by (simp add: sends_only_def lift_def)

lemma sends_only_print: "sends_only P (print s)"
  by (simp add: sends_only_def print_def)

lemma sends_only_send: "P q \<Longrightarrow> sends_only P (send srv q)"
  by (simp add: sends_only_def send_def)

lemma sends_only_bind:
  assumes m: "sends_only P m" and f: "\<And>x. sends_only P (f x)"
  shows "sends_only P (io_bind m f)"
  unfolding sends_only_def
proof
  fix w
  from m obtain n1 where n1: "sent (snd (m w)) = sent w @ n1" "list_all P n1"
    unfolding sends_only_def by blast
  show "\<exists>new. sent (snd (io_bind m f w)) = sent w @ new \<and> list_all P new"
  proof (cases "m w")
    case (Pair res w1)
    show ?thesis
    proof (cases res)
      case (Inl e)
      with Pair n1 show ?thesis by (auto simp: io_bind_def)
    next
      case (Inr x)
      from f [of x] obtain n2 where n2: "sent (snd (f x w1)) = sent w1 @ n2" "list_all P n2"
        unfolding sends_only_def by blast
      with Pair Inr n1 have "sent (snd (io_bind m f w)) = sent w @ (n1 @ n2) \<and> list_all P (n1 @ n2)"
        by (simp add: io_bind_def)
      then show ?thesis by blast
    qed
  qed
qed

lemma sends_only_case_option:
  "sends_only P a \<Longrightarrow> (\<And>x. sends_only P (b x)) \<Longrightarrow>
   sends_only P (case opt of None \<Rightarrow> a | Some x \<Rightarrow> b x)"
  by (cases opt) simp_all

lemma requests_get_version: 
  "requests_get srv ''https://valorant-api.com/v1/version'' [] (Some 30) = send srv version_request"
  by (simp add: requests_get_def version_request_def)

lemma sends_only_client_version: "P version_request \<Longrightarrow> sends_only P (client_version srv)"
  unfolding client_version_def requests_get_version
  by (intro sends_only_bind sends_only_send sends_only_lift)

lemmas sends_only_intros =
  sends_only_bind sends_only_case_option sends_only_client_version sends_only_send
  sends_only_returns sends_only_lift sends_only_print

lemmas method_defs =
  get_content_def get_account_xp_def get_loadout_def set_loadout_def get_player_mmr_def
  get_match_history_def get_match_details_def get_leaderboard_def get_penalties_def
  get_config_def get_prices_def get_store_def get_wallet_def get_items_def
  get_pregame_id_def get_pregame_match_def get_pregame_loadout_def select_agent_def
  lock_agent_def quit_pregame_def get_current_game_player_def get_current_game_match_def
  get_current_game_loadout_def get_item_upgrades_def get_contracts_def

lemmas verb_defs = session_get_def session_post_def session_put_def requests_get_def

lemmas sample_defs =
  sample_constants_def sample_api_def sample_client_def sample_auth_def fresh_def ok_def
  version_body_def version_request_def

lemmas run_defs =
  verb_defs io_bind_def send_def lift_def returns_def json_def and_then_def bearer_def
  get_access_token_def get_id_token_def get_entitlement_token_def

lemma sends_only_call:
  "sends_only (\<lambda>q. q = version_request \<or> carries_tokens v q) (call K srv v m)"
  by (cases m; simp only: call.simps method_defs verb_defs;
      intro sends_only_intros; simp add: carries_tokens_def bearer_def)

subsection \<open>The exceptions a call raises\<close>

lemma undeclared_Inr: "undeclared (Inr x)"
  by (simp add: undeclared_def)

lemma undeclared_getitem: "undeclared (getitem d k)"
  by (cases d) (auto simp: undeclared_def split: option.splits)

lemma undeclared_json: "undeclared (json r)"
  by (auto simp: undeclared_def json_def split: option.splits)

lemma undeclared_and_then:
  "undeclared m \<Longrightarrow> (\<And>x. undeclared (f x)) \<Longrightarrow> undeclared (and_then m f)"
  by (cases m) (auto simp: undeclared_def and_then_def)

lemma undeclared_client_platform: "undeclared (client_platform v)"
  by (simp add: client_platform_value undeclared_def)

lemma raises_undeclared_returns: "raises_undeclared (returns x)"
  by (simp add: raises_undeclared_def returns_def undeclared_def)

lemma raises_undeclared_lift: "undeclared r \<Longrightarrow> raises_undeclared (lift r)"
  by (simp add: raises_undeclared_def lift_def)

lemma raises_undeclared_print: "raises_undeclared (print s)"
  by (simp add: raises_undeclared_def print_def undeclared_def)

lemma raises_undeclared_send: "raises_undeclared (send srv q)"
  by (auto simp: raises_undeclared_def send_def undeclared_def split: option.splits)

lemma raises_undeclared_bind:
  assumes m: "raises_undeclared m" and f: "\<And>x. raises_undeclared (f x)"
  shows "raises_undeclared (io_bind m f)"
  unfolding raises_undeclared_def
proof
  fix w
  show "undeclared (fst (io_bind m f w))"
  proof (cases "m w")
    case (Pair res w1)
    show ?thesis
    proof (cases res)
      case (Inl e)
      from m have "undeclared (fst (m w))" by (simp add: raises_undeclared_def)
      with Pair Inl show ?thesis by (simp add: io_bind_def undeclared_def)
    next
      case (Inr x)
      from f [of x] have "undeclared (fst (f x w1))" by (simp add: raises_undeclared_def)
      with Pair Inr show ?thesis by (simp add: io_bind_def)
    qed
  qed
qed

lemma raises_undeclared_case_option:
  "raises_undeclared a \<Longrightarrow> (\<And>x. raises_undeclared (b x)) \<Longrightarrow>
   raises_undeclared (case opt of None \<Rightarrow> a | Some x \<Rightarrow> b x)"
  by (cases opt) simp_all

lemma raises_undeclared_client_version: "raises_undeclared (client_version srv)"
  unfolding client_version_def
  by (intro raises_undeclared_bind raises_undeclared_lift undeclared_and_then
        undeclared_json undeclared_getitem) (simp add: requests_get_def raises_undeclared_send)

lemmas raises_undeclared_intros =
  raises_undeclared_bind raises_undeclared_case_option raises_undeclared_client_version
  raises_undeclared_send raises_undeclared_returns raises_undeclared_lift
  raises_undeclared_print undeclared_getitem undeclared_json undeclared_client_platform

lemma raises_undeclared_call: "raises_undeclared (call K srv v m)"
  by (cases m; simp only: call.simps method_defs verb_defs; intro raises_undeclared_intros)

subsection \<open>Servers that differ in their statuses only\<close>

lemma fetch_json_same:
  assumes "\<forall>h q. map_option decoded (srv h q) = map_option decoded (srv' h q)"
  shows "io_bind (send srv q) (\<lambda>r. lift (g (json r))) = io_bind (send srv' q) (\<lambda>r. lift (g (json r)))"
proof
  fix w :: world
  from assms have eq: "map_option decoded (srv (sent w) q) = map_option decoded (srv' (sent w) q)"
    by blast
  show "io_bind (send srv q) (\<lambda>r. lift (g (json r))) w = io_bind (send srv' q) (\<lambda>r. lift (g (json r))) w"
    using eq by (cases "srv (sent w) q"; cases "srv' (sent w) q")
      (auto simp: io_bind_def send_def lift_def json_def)
qed

lemma send_json_same:
  assumes "\<forall>h q. map_option decoded (srv h q) = map_option decoded (srv' h q)"
  shows "io_bind (send srv q) (\<lambda>r. lift (json r)) = io_bind (send srv' q) (\<lambda>r. lift (json r))"
  using fetch_json_same [OF assms, of q "\<lambda>x. x"] by simp

lemma send_ignore_same:
  assumes "\<forall>h q. map_option decoded (srv h q) = map_option decoded (srv' h q)"
  shows "io_bind (send srv q) (\<lambda>r. returns x) = io_bind (send srv' q) (\<lambda>r. returns x)"
proof
  fix w :: world
  from assms have eq: "map_option decoded (srv (sent w) q) = map_option decoded (srv' (sent w) q)"
    by blast
  show "io_bind (send srv q) (\<lambda>r. returns x) w = io_bind (send srv' q) (\<lambda>r. returns x) w"
    using eq by (cases "srv (sent w) q"; cases "srv' (sent w) q")
      (auto simp: io_bind_def send_def returns_def)
qed

lemma client_version_same:
  assumes "\<forall>h q. map_option decoded (srv h q) = map_option decoded (srv' h q)"
  shows "client_version srv = client_version srv'"
  unfolding client_version_def requests_get_def
  by (rule fetch_json_same [OF assms])

lemma get_pregame_id_same:
  assumes "\<forall>h q. map_option decoded (srv h q) = map_option decoded (srv' h q)"
  shows "get_pregame_id K srv v p = get_pregame_id K srv' v p"
  by (simp only: get_pregame_id_def verb_defs send_json_same [OF assms])

lemma call_same:
  assumes "\<forall>h q. map_option decoded (srv h q) = map_option decoded (srv' h q)"
  shows "call K srv v m = call K srv' v m"
  by (cases m; simp only: call.simps get_pregame_id_same [OF assms];
      simp only: method_defs verb_defs send_json_same [OF assms] send_ignore_same [OF assms]
        client_version_same [OF assms] get_pregame_id_same [OF assms])

subsection \<open>Running a call step by step\<close>

lemma bind_Inr: "m w = (Inr x, w1) \<Longrightarrow> io_bind m f w = f x w1"
  by (simp add: io_bind_def)

lemma bind_Inl: "m w = (Inl e, w1) \<Longrightarrow> io_bind m f w = (Inl e, w1)"
  by (simp add: io_bind_def)

lemma bind_lift_Inr [simp]: "io_bind (lift (Inr x)) f = f x"
  by (rule ext) (simp add: io_bind_def lift_def)

lemma bind_returns [simp]: "io_bind (returns x) f = f x"
  by (rule ext) (simp add: io_bind_def returns_def)

lemma send_lift:
  "io_bind (send srv q) (\<lambda>r. lift (g r)) w =
     ((case srv (sent w) q of None \<Rightarrow> Inl RequestException | Some r \<Rightarrow> g r),
      w\<lparr>sent := sent w @ [q]\<rparr>)"
  by (simp add: io_bind_def send_def lift_def split: option.splits)

lemma get_content_once:
  assumes cv: "client_version srv w = (Inr ver, w1)"
    and r: "srv (sent w1) (last (sent (snd (get_content K srv v w)))) = Some r"
  shows "length (sent (snd (get_content K srv v w))) = length (sent w1) + 1"
    and "fst (get_content K srv v w) = json r"
proof -
  let ?q = "\<lparr>via_session = True, verb = GET, url = pd_server v @ CONTENT (api K),
      headers = [(''X-Riot-ClientPlatform'', PStr (py_str (PBytes (projr (client_platform v))))),
          (''X-Riot-ClientVersion'', PStr (py_str ver)),
          (''X-Riot-Entitlements-JWT'', PStr (py_str (PStr (get_entitlement_token (auth v))))),
          (''Authorization'', bearer v)], json_body = None, timeout = None\<rparr>"
  have eq: "get_content K srv v w = io_bind (send srv ?q) (\<lambda>r. lift (json r)) w1"
    by (simp add: get_content_def client_platform_value session_get_def
          bind_Inr [where m = "client_version srv", OF cv])
  have eq2: "get_content K srv v w =
     ((case srv (sent w1) ?q of None \<Rightarrow> Inl RequestException | Some r \<Rightarrow> json r),
      w1\<lparr>sent := sent w1 @ [?q]\<rparr>)"
    unfolding eq by (simp add: send_lift)
  show "length (sent (snd (get_content K srv v w))) = length (sent w1) + 1"
    by (simp add: eq2)
  from r show "fst (get_content K srv v w) = json r"
    by (simp add: eq2)
qed

subsection \<open>The request a call ends with\<close>

lemma sends_last_send_lift: "P q \<Longrightarrow> sends_last P (io_bind (send srv q) (\<lambda>r. lift (g r)))"
  unfolding sends_last_def
proof
  fix w :: world
  assume "P q"
  then have "sent (snd (io_bind (send srv q) (\<lambda>r. lift (g r)) w)) = sent w @ [] @ [q] \<and> P q"
    by (simp add: send_lift)
  then show "\<exists>pre q'. sent (snd (io_bind (send srv q) (\<lambda>r. lift (g r)) w)) = sent w @ pre @ [q'] \<and> P q'"
    by blast
qed

lemma send_returns:
  "io_bind (send srv q) (\<lambda>r. returns x) w =
     ((case srv (sent w) q of None \<Rightarrow> Inl RequestException | Some r \<Rightarrow> Inr x),
      w\<lparr>sent := sent w @ [q]\<rparr>)"
  by (simp add: io_bind_def send_def returns_def split: option.splits)

lemma sends_last_send_returns: "P q \<Longrightarrow> sends_last P (io_bind (send srv q) (\<lambda>r. returns x))"
  unfolding sends_last_def
proof
  fix w :: world
  assume "P q"
  then have "sent (snd (io_bind (send srv q) (\<lambda>r. returns x) w)) = sent w @ [] @ [q] \<and> P q"
    by (simp add: send_returns)
  then show "\<exists>pre q'. sent (snd (io_bind (send srv q) (\<lambda>r. returns x) w)) = sent w @ pre @ [q'] \<and> P q'"
    by blast
qed

lemma sends_last_bind:
  assumes m: "succeeds m" and f: "\<And>x. sends_last P (f x)"
  shows "sends_last P (io_bind m f)"
  unfolding sends_last_def
proof
  fix w
  from m obtain x w1 n1 where m1: "m w = (Inr x, w1)" "sent w1 = sent w @ n1"
    unfolding succeeds_def by blast
  from f [of x] obtain pre q where q: "sent (snd (f x w1)) = sent w1 @ pre @ [q]" "P q"
    unfolding sends_last_def by blast
  from m1 q have "sent (snd (io_bind m f w)) = sent w @ (n1 @ pre) @ [q] \<and> P q"
    by (simp add: io_bind_def)
  then show "\<exists>pre q. sent (snd (io_bind m f w)) = sent w @ pre @ [q] \<and> P q"
    by blast
qed

lemma succeeds_print: "succeeds (print s)"
  by (simp add: succeeds_def print_def)

lemma succeeds_client_version:
  assumes "\<forall>h. \<exists>r j d ver. srv h version_request = Some r \<and> decoded r = Some j \<and>
             getitem j ''data'' = Inr d \<and> getitem d ''riotClientVersion'' = Inr ver"
  shows "succeeds (client_version srv)"
  unfolding succeeds_def
proof
  fix w :: world
  from assms obtain r j d ver where a: "srv (sent w) version_request = Some r"
    "decoded r = Some j" "getitem j ''data'' = Inr d" "getitem d ''riotClientVersion'' = Inr ver"
    by blast
  then have "client_version srv w = (Inr ver, w\<lparr>sent := sent w @ [version_request]\<rparr>)"
    by (simp add: client_version_def requests_get_version send_lift json_def and_then_def)
  then show "\<exists>x w' new. client_version srv w = (Inr x, w') \<and> sent w' = sent w @ new"
    by simp
qed

lemma pregame_id_run:
  assumes sub: "getitem (user_info v) ''sub'' = Inr sub"
    and srv: "\<forall>h q. url q = glz_server v @ PREGAME_PLAYER (api K) @ ''/'' @ py_str sub \<longrightarrow>
             (\<exists>r j mid. srv h q = Some r \<and> decoded r = Some j \<and> getitem j ''MatchID'' = Inr mid)"
  shows "\<exists>d mid w' new. get_pregame_id K srv v None w = (Inr d, w') \<and>
           getitem d ''MatchID'' = Inr mid \<and> sent w' = sent w @ new"
proof -
  let ?q = "\<lparr>via_session = True, verb = GET,
      url = glz_server v @ PREGAME_PLAYER (api K) @ ''/'' @ py_str sub,
      headers = [(''X-Riot-Entitlements-JWT'', PStr (get_entitlement_token (auth v))),
          (''Authorization'', bearer v)], json_body = None, timeout = None\<rparr>"
  from srv obtain r j mid where a: "srv (sent w) ?q = Some r" "decoded r = Some j"
    "getitem j ''MatchID'' = Inr mid"
    by (metis (no_types, lifting) request.select_convs(3))
  then have "get_pregame_id K srv v None w = (Inr j, w\<lparr>sent := sent w @ [?q]\<rparr>)"
    by (simp add: get_pregame_id_def sub session_get_def send_lift json_def)
  with a show ?thesis
    by simp
qed

lemma succeeds_pregame_id:
  assumes "getitem (user_info v) ''sub'' = Inr sub"
    and "\<forall>h q. url q = glz_server v @ PREGAME_PLAYER (api K) @ ''/'' @ py_str sub \<longrightarrow>
             (\<exists>r j mid. srv h q = Some r \<and> decoded r = Some j \<and> getitem j ''MatchID'' = Inr mid)"
  shows "succeeds (get_pregame_id K srv v None)"
  unfolding succeeds_def using pregame_id_run [OF assms] by blast

lemma succeeds_pregame_match_id:
  assumes "getitem (user_info v) ''sub'' = Inr sub"
    and "\<forall>h q. url q = glz_server v @ PREGAME_PLAYER (api K) @ ''/'' @ py_str sub \<longrightarrow>
             (\<exists>r j mid. srv h q = Some r \<and> decoded r = Some j \<and> getitem j ''MatchID'' = Inr mid)"
  shows "succeeds (io_bind (get_pregame_id K srv v None) (\<lambda>d. lift (getitem d ''MatchID'')))"
  unfolding succeeds_def
proof
  fix w :: world
  from pregame_id_run [OF assms, of w] obtain d mid w' new where
    a: "get_pregame_id K srv v None w = (Inr d, w')" "getitem d ''MatchID'' = Inr mid"
       "sent w' = sent w @ new"
    by blast
  then have "io_bind (get_pregame_id K srv v None) (\<lambda>d. lift (getitem d ''MatchID'')) w =
      (Inr mid, w')"
    by (simp add: io_bind_def lift_def)
  with a show "\<exists>x w' new. io_bind (get_pregame_id K srv v None)
      (\<lambda>d. lift (getitem d ''MatchID'')) w = (Inr x, w') \<and> sent w' = sent w @ new"
    by blast
qed

lemmas sends_last_print = sends_last_bind [OF succeeds_print]
lemmas sends_last_version = sends_last_bind [OF succeeds_client_version]
lemmas sends_last_pregame_id = sends_last_bind [OF succeeds_pregame_id]
lemmas sends_last_pregame_match_id = sends_last_bind [OF succeeds_pregame_match_id]

lemmas sends_last_intros =
  sends_last_send_lift sends_last_send_returns sends_last_print sends_last_version
  sends_last_pregame_id sends_last_pregame_match_id

lemmas own_method_defs =
  get_content_def get_account_xp_def get_loadout_def set_loadout_def get_player_mmr_def
  get_match_history_def get_match_details_def get_leaderboard_def get_penalties_def
  get_config_def get_prices_def get_store_def get_wallet_def get_items_def
  get_pregame_match_def get_pregame_loadout_def select_agent_def
  lock_agent_def quit_pregame_def get_current_game_player_def get_current_game_match_def
  get_current_game_loadout_def get_item_upgrades_def get_contracts_def

lemma sends_last_call:
  assumes sub: "getitem (user_info v) ''sub'' = Inr sub"
    and ver: "\<forall>h. \<exists>r j d ver. srv h version_request = Some r \<and> decoded r = Some j \<and>
             getitem j ''data'' = Inr d \<and> getitem d ''riotClientVersion'' = Inr ver"
    and pre: "\<forall>h q. url q = glz_server v @ PREGAME_PLAYER (api K) @ ''/'' @ py_str sub \<longrightarrow>
             (\<exists>r j mid. srv h q = Some r \<and> decoded r = Some j \<and> getitem j ''MatchID'' = Inr mid)"
  shows "sends_last (\<lambda>q. carries_tokens v q \<and> routed v q) (call K srv v m)"
proof -
  note easy = sub client_platform_value verb_defs
  note steps = sends_last_send_lift sends_last_send_returns sends_last_print
    sends_last_version [where srv = srv, OF ver]
    sends_last_pregame_id [where srv = srv and v = v and K = K, OF sub pre]
    sends_last_pregame_match_id [where srv = srv and v = v and K = K, OF sub pre]
  note fin = carries_tokens_def routed_def bearer_def
  have own: "sends_last (\<lambda>q. carries_tokens v q \<and> routed v q) (get_pregame_id K srv v p)" for p
    by (cases p; simp add: get_pregame_id_def easy; intro steps; simp add: fin)
  have opt: "sends_last (\<lambda>q. carries_tokens v q \<and> routed v q) (call K srv v (c p))"
    if "c = Get_player_mmr \<or> c = Get_pregame_match \<or> c = Get_pregame_loadout \<or>
        c = Quit_pregame \<or> c = Get_current_game_player \<or> c = Get_current_game_match \<or>
        c = Get_current_game_loadout \<or> c = Get_contracts" for c p
    using that
    by (cases p; elim disjE; simp add: own_method_defs easy; intro steps; simp add: fin)
  have agent: "sends_last (\<lambda>q. carries_tokens v q \<and> routed v q) (call K srv v (c a p))"
    if "c = Select_agent \<or> c = Lock_agent" for c a p
    using that
    by (cases p; elim disjE; simp add: own_method_defs easy; intro steps; simp add: fin)
  have hist: "sends_last (\<lambda>q. carries_tokens v q \<and> routed v q)
      (call K srv v (Get_match_history p off n))" for p off n
    by (cases p; simp add: own_method_defs easy; intro steps; simp add: fin)
  have board: "sends_last (\<lambda>q. carries_tokens v q \<and> routed v q)
      (call K srv v (Get_leaderboard s st n u))" for s st n u
    by (simp add: own_method_defs easy; intro steps conjI impI; simp add: fin)
  show ?thesis
  proof (cases m)
    case (Get_pregame_id p)
    with own show ?thesis by simp
  next
    case (Get_player_mmr p)
    with opt show ?thesis by blast
  next
    case (Get_pregame_match p)
    with opt show ?thesis by blast
  next
    case (Get_pregame_loadout p)
    with opt show ?thesis by blast
  next
    case (Quit_pregame p)
    with opt show ?thesis by blast
  next
    case (Get_current_game_player p)
    with opt show ?thesis by blast
  next
    case (Get_current_game_match p)
    with opt show ?thesis by blast
  next
    case (Get_current_game_loadout p)
    with opt show ?thesis by blast
  next
    case (Get_contracts p)
    with opt show ?thesis by blast
  next
    case (Select_agent a p)
    with agent show ?thesis by blast
  next
    case (Lock_agent a p)
    with agent show ?thesis by blast
  next
    case (Get_match_history p off n)
    with hist show ?thesis by simp
  next
    case (Get_leaderboard s st n u)
    with board show ?thesis by simp
  qed (simp_all add: own_method_defs easy; intro steps; simp add: fin)+
qed

lemma extends_of_sends_only: "sends_only P m \<Longrightarrow> extends m"
  unfolding sends_only_def extends_def by blast

lemma extends_lift: "extends (lift r)"
  by (rule extends_of_sends_only [OF sends_only_lift])

lemma extends_print: "extends (print s)"
  by (rule extends_of_sends_only [OF sends_only_print])

lemma extends_client_version: "extends (client_version srv)"
  by (rule extends_of_sends_only [OF sends_only_client_version [where P = "\<lambda>q. True"]]) simp

lemma extends_pregame_id: "extends (get_pregame_id K srv v p)"
  using extends_of_sends_only [OF sends_only_call [of v K srv "Get_pregame_id p"]] by simp

lemma extends_pregame_match_id:
  "extends (io_bind (get_pregame_id K srv v p) (\<lambda>d. lift (getitem d ''MatchID'')))"
proof (rule extends_of_sends_only [where P = "\<lambda>q. q = version_request \<or> carries_tokens v q"])
  show "sends_only (\<lambda>q. q = version_request \<or> carries_tokens v q)
     (io_bind (get_pregame_id K srv v p) (\<lambda>d. lift (getitem d ''MatchID'')))"
    using sends_only_call [of v K srv "Get_pregame_id p"]
    by (intro sends_only_bind sends_only_lift) simp
qed

lemma returns_after_sends_last: "sends_last P m \<Longrightarrow> returns_after P m"
  unfolding sends_last_def returns_after_def by blast

lemma returns_after_bind:
  assumes m: "extends m" and f: "\<And>x. returns_after P (f x)"
  shows "returns_after P (io_bind m f)"
  unfolding returns_after_def
proof
  fix w
  from m obtain n1 where n1: "sent (snd (m w)) = sent w @ n1"
    unfolding extends_def by blast
  show "(\<exists>e. fst (io_bind m f w) = Inl e) \<or>
        (\<exists>pre q. sent (snd (io_bind m f w)) = sent w @ pre @ [q] \<and> P q)"
  proof (cases "m w")
    case (Pair res w1)
    show ?thesis
    proof (cases res)
      case (Inl e)
      with Pair show ?thesis by (simp add: io_bind_def)
    next
      case (Inr x)
      with Pair have run: "io_bind m f w = f x w1"
        by (simp add: io_bind_def)
      from f [of x] have "(\<exists>e. fst (f x w1) = Inl e) \<or>
          (\<exists>pre q. sent (snd (f x w1)) = sent w1 @ pre @ [q] \<and> P q)"
        unfolding returns_after_def by blast
      then show ?thesis
      proof
        assume "\<exists>e. fst (f x w1) = Inl e"
        with run show ?thesis by simp
      next
        assume "\<exists>pre q. sent (snd (f x w1)) = sent w1 @ pre @ [q] \<and> P q"
        then obtain pre q where q: "sent (snd (f x w1)) = sent w1 @ pre @ [q]" "P q"
          by blast
        from Pair n1 have "sent w1 = sent w @ n1" by simp
        with q run have "sent (snd (io_bind m f w)) = sent w @ (n1 @ pre) @ [q] \<and> P q"
          by simp
        then show ?thesis by blast
      qed
    qed
  qed
qed

lemmas returns_after_intros =
  returns_after_sends_last [OF sends_last_send_lift]
  returns_after_sends_last [OF sends_last_send_returns]
  returns_after_bind [OF extends_lift]
  returns_after_bind [OF extends_print]
  returns_after_bind [OF extends_client_version]
  returns_after_bind [OF extends_pregame_id]
  returns_after_bind [OF extends_pregame_match_id]

lemma returns_after_call:
  "returns_after (\<lambda>q. carries_tokens v q \<and> routed v q) (call K srv v m)"
proof -
  note easy = client_platform_value verb_defs
  note steps = returns_after_intros
  note fin = carries_tokens_def routed_def bearer_def
  have own: "returns_after (\<lambda>q. carries_tokens v q \<and> routed v q) (get_pregame_id K srv v p)" for p
    by (cases p; simp add: get_pregame_id_def easy; intro steps; simp add: fin)
  have opt: "returns_after (\<lambda>q. carries_tokens v q \<and> routed v q) (call K srv v (c p))"
    if "c = Get_player_mmr \<or> c = Get_pregame_match \<or> c = Get_pregame_loadout \<or>
        c = Quit_pregame \<or> c = Get_current_game_player \<or> c = Get_current_game_match \<or>
        c = Get_current_game_loadout \<or> c = Get_contracts" for c p
    using that
    by (cases p; elim disjE; simp add: own_method_defs easy; intro steps; simp add: fin)
  have agent: "returns_after (\<lambda>q. carries_tokens v q \<and> routed v q) (call K srv v (c a p))"
    if "c = Select_agent \<or> c = Lock_agent" for c a p
    using that
    by (cases p; elim disjE; simp add: own_method_defs easy; intro steps; simp add: fin)
  have hist: "returns_after (\<lambda>q. carries_tokens v q \<and> routed v q)
      (call K srv v (Get_match_history p off n))" for p off n
    by (cases p; simp add: own_method_defs easy; intro steps; simp add: fin)
  have board: "returns_after (\<lambda>q. carries_tokens v q \<and> routed v q)
      (call K srv v (Get_leaderboard s st n u))" for s st n u
    by (simp add: own_method_defs easy; intro steps conjI impI; simp add: fin)
  show ?thesis
  proof (cases m)
    case (Get_pregame_id p)
    with own show ?thesis by simp
  next
    case (Get_player_mmr p)
    with opt show ?thesis by blast
  next
    case (Get_pregame_match p)
    with opt show ?thesis by blast
  next
    case (Get_pregame_loadout p)
    with opt show ?thesis by blast
  next
    case (Quit_pregame p)
    with opt show ?thesis by blast
  next
    case (Get_current_game_player p)
    with opt show ?thesis by blast
  next
    case (Get_current_game_match p)
    with opt show ?thesis by blast
  next
    case (Get_current_game_loadout p)
    with opt show ?thesis by blast
  next
    case (Get_contracts p)
    with opt show ?thesis by blast
  next
    case (Select_agent a p)
    with agent show ?thesis by blast
  next
    case (Lock_agent a p)
    with agent show ?thesis by blast
  next
    case (Get_match_history p off n)
    with hist show ?thesis by simp
  next
    case (Get_leaderboard s st n u)
    with board show ?thesis by simp
  qed (simp_all add: own_method_defs easy; intro steps; simp add: fin)+
qed

section \<open>Authentication failures\<close>

text \<open>
  Claim C1, as amended. For every endpoint call, a response of the 401/403 class
  causes no token refresh and no retry, because the status of a response is never
  looked at: two servers whose answers differ in their statuses only make every call
  send the same requests and return the same result; no call ends in
  \<open>ApiError::Unauthorized\<close>; and \<open>get_content\<close>, once the version lookup has returned,
  sends exactly one request and returns what decoding that one response gives.
\<close>

theorem status_never_inspected:
  "((\<forall>h q. map_option decoded (srv h q) = map_option decoded (srv' h q)) \<longrightarrow>
      call K srv v m w = call K srv' v m w) \<and>
   fst (call K srv v m w) \<noteq> Inl (Declared ApiError_Unauthorized) \<and>
   (client_version srv w = (Inr ver, w1) \<and>
    srv (sent w1) (last (sent (snd (get_content K srv v w)))) = Some r \<longrightarrow>
      length (sent (snd (get_content K srv v w))) = length (sent w1) + 1 \<and>
      fst (get_content K srv v w) = json r)"
proof (intro conjI impI)
  assume "\<forall>h q. map_option decoded (srv h q) = map_option decoded (srv' h q)"
  then have "call K srv v m = call K srv' v m"
    by (rule call_same)
  then show "call K srv v m w = call K srv' v m w"
    by simp
next
  from raises_undeclared_call [of K srv v m]
  show "fst (call K srv v m w) \<noteq> Inl (Declared ApiError_Unauthorized)"
    by (simp add: raises_undeclared_def undeclared_def)
next
  assume a: "client_version srv w = (Inr ver, w1) \<and>
    srv (sent w1) (last (sent (snd (get_content K srv v w)))) = Some r"
  then show "length (sent (snd (get_content K srv v w))) = length (sent w1) + 1"
    using get_content_once(1) by blast
  from a show "fst (get_content K srv v w) = json r"
    using get_content_once(2) by blast
qed

text \<open>
  Claim C1 as stated fails. The server answers the first request to a URL with 401 and
  would answer a second one with 200. \<open>get_content\<close> sends the version lookup and one
  content request, no more, and returns the body of the 401 response as its result,
  which is no \<open>ApiError::Unauthorized\<close> either.
\<close>

theorem expired_token_not_retried:
  "fst (get_content sample_constants expired_backend sample_client fresh) =
     Inr (PDict [(''errorCode'', PStr ''BAD_CLAIMS'')]) \<and>
   map url (sent (snd (get_content sample_constants expired_backend sample_client fresh))) =
     [''https://valorant-api.com/v1/version'',
      ''https://pd.na1.a.pvp.net/content-service/v3/content''] \<and>
   map_option status (expired_backend [version_request]
      (last (sent (snd (get_content sample_constants expired_backend sample_client fresh))))) =
     Some 401 \<and>
   map_option status
     (expired_backend (sent (snd (get_content sample_constants expired_backend sample_client fresh)))
        (last (sent (snd (get_content sample_constants expired_backend sample_client fresh))))) =
     Some 200 \<and>
   fst (get_content sample_constants expired_backend sample_client fresh) \<noteq>
     Inl (Declared ApiError_Unauthorized)"
  by (simp add: get_content_def client_platform_value client_version_def run_defs sample_defs
      expired_backend_def)

text \<open>
  The theorem at a server that answers the first request to a URL with 401: the call
  sends the version lookup and one content request, and returns the body of the 401.
\<close>

theorem status_never_inspected_witness:
  "(\<forall>h q. map_option decoded (expired_backend h q) = map_option decoded (lenient_backend h q)) \<and>
   call sample_constants expired_backend sample_client Get_content fresh =
     call sample_constants lenient_backend sample_client Get_content fresh \<and>
   client_version expired_backend fresh =
     (Inr (PStr ''release-09.00''), \<lparr>sent = [version_request], stdout = []\<rparr>) \<and>
   expired_backend [version_request]
      (last (sent (snd (get_content sample_constants expired_backend sample_client fresh)))) =
     Some \<lparr>status = 401, decoded = Some (PDict [(''errorCode'', PStr ''BAD_CLAIMS'')])\<rparr> \<and>
   length (sent (snd (get_content sample_constants expired_backend sample_client fresh))) = 2 \<and>
   fst (get_content sample_constants expired_backend sample_client fresh) =
     Inr (PDict [(''errorCode'', PStr ''BAD_CLAIMS'')])"
proof -
  let ?w1 = "\<lparr>sent = [version_request], stdout = []\<rparr>"
  let ?r = "\<lparr>status = 401, decoded = Some (PDict [(''errorCode'', PStr ''BAD_CLAIMS'')])\<rparr>"
  have h1: "\<forall>h q. map_option decoded (expired_backend h q) = map_option decoded (lenient_backend h q)"
    by (simp add: expired_backend_def lenient_backend_def ok_def)
  have h2: "client_version expired_backend fresh = (Inr (PStr ''release-09.00''), ?w1)"
    by (simp add: client_version_def run_defs sample_defs expired_backend_def)
  have h3: "expired_backend [version_request]
      (last (sent (snd (get_content sample_constants expired_backend sample_client fresh)))) = Some ?r"
    by (simp add: get_content_def client_platform_value client_version_def run_defs sample_defs
        expired_backend_def)
  then have h3': "expired_backend (sent ?w1)
      (last (sent (snd (get_content sample_constants expired_backend sample_client fresh)))) = Some ?r"
    by simp
  note t = status_never_inspected [where srv = expired_backend and srv' = lenient_backend
      and K = sample_constants and v = sample_client and m = Get_content and w = fresh
      and ver = "PStr ''release-09.00''" and ?w1.0 = ?w1 and r = ?r]
  from t h1 have c1: "call sample_constants expired_backend sample_client Get_content fresh =
     call sample_constants lenient_backend sample_client Get_content fresh"
    by blast
  from t h2 h3' have c3:
    "length (sent (snd (get_content sample_constants expired_backend sample_client fresh))) =
       length (sent ?w1) + 1 \<and>
     fst (get_content sample_constants expired_backend sample_client fresh) = json ?r"
    by blast
  from c3 have c3a:
    "length (sent (snd (get_content sample_constants expired_backend sample_client fresh))) = 2"
    by simp
  from c3 have c3b: "fst (get_content sample_constants expired_backend sample_client fresh) =
     Inr (PDict [(''errorCode'', PStr ''BAD_CLAIMS'')])"
    by (simp add: json_def)
  from h1 c1 h2 h3 c3a c3b show ?thesis
    by blast
qed

section \<open>Region resolution\<close>

text \<open>
  Claim C3 as stated fails. The affinity code \<open>zz\<close> has no entry in the table, and
  \<open>get_region\<close> raises \<open>KeyError\<close>, not \<open>AuthError::UnknownRegion\<close>.
\<close>

theorem unknown_region_raises_KeyError:
  "regions sample_constants ''zz'' = None \<and>
   fst (get_region sample_constants (geo_backend ''zz'') sample_auth fresh) =
     Inl (KeyError (PStr ''zz'')) \<and>
   fst (get_region sample_constants (geo_backend ''zz'') sample_auth fresh) \<noteq>
     Inl (Declared AuthError_UnknownRegion)"
  by (simp add: get_region_def run_defs sample_defs geo_backend_def)

text \<open>
  Claim C3, as amended. When the geolocation response carries the "live" affinity code
  \<open>code\<close>: if the table has no entry for it, \<open>get_region\<close> raises Python's \<open>KeyError\<close>
  with that code; if it has one, \<open>get_region\<close> returns the mapped region.
\<close>

theorem get_region_lookup:
  assumes "srv (sent w) (last (sent (snd (get_region K srv a w)))) = Some r"
    and "decoded r = Some body"
    and "getitem body ''affinities'' = Inr affinities"
    and "getitem affinities ''live'' = Inr (PStr code)"
  shows "fst (get_region K srv a w) =
           (case regions K code of None \<Rightarrow> Inl (KeyError (PStr code)) | Some reg \<Rightarrow> Inr reg)"
  using assms
  by (simp add: get_region_def verb_defs send_lift json_def and_then_def)

text \<open>The theorem at a code the sample table lacks and at one it has.\<close>

theorem get_region_lookup_witness:
  "fst (get_region sample_constants (geo_backend ''zz'') sample_auth fresh) =
     Inl (KeyError (PStr ''zz'')) \<and>
   fst (get_region sample_constants (geo_backend ''latam'') sample_auth fresh) =
     Inr \<lparr>region = ''latam'', shard = ''na''\<rparr>"
proof -
  have sent1: "\<And>c. geo_backend c (sent fresh)
       (last (sent (snd (get_region sample_constants (geo_backend c) sample_auth fresh)))) =
       Some \<lparr>status = 200, decoded = Some (PDict [(''affinities'', PDict [(''live'', PStr c)])])\<rparr>"
    by (simp add: get_region_def run_defs sample_defs geo_backend_def)
  have miss: "fst (get_region sample_constants (geo_backend ''zz'') sample_auth fresh) =
     (case regions sample_constants ''zz'' of None \<Rightarrow> Inl (KeyError (PStr ''zz''))
      | Some reg \<Rightarrow> Inr reg)"
    by (rule get_region_lookup [where srv = "geo_backend ''zz''"
          and body = "PDict [(''affinities'', PDict [(''live'', PStr ''zz'')])]"
          and affinities = "PDict [(''live'', PStr ''zz'')]", OF sent1]) simp_all
  have hit: "fst (get_region sample_constants (geo_backend ''latam'') sample_auth fresh) =
     (case regions sample_constants ''latam'' of None \<Rightarrow> Inl (KeyError (PStr ''latam''))
      | Some reg \<Rightarrow> Inr reg)"
    by (rule get_region_lookup [where srv = "geo_backend ''latam''"
          and body = "PDict [(''affinities'', PDict [(''live'', PStr ''latam'')])]"
          and affinities = "PDict [(''live'', PStr ''latam'')]", OF sent1]) simp_all
  from miss hit show ?thesis
    by (simp add: sample_defs)
qed

section \<open>Bodies that are not JSON\<close>

text \<open>
  Claim C4 as stated fails. The server answers 200 with a body that is not JSON, and
  \<open>get_user_info\<close> raises the decoder's \<open>JSONDecodeError\<close>, not
  \<open>ApiError::MalformedResponse\<close>.
\<close>

theorem malformed_body_raises_decoder_error:
  "garbled_backend (sent fresh)
      (last (sent (snd (get_user_info sample_constants garbled_backend sample_auth fresh)))) =
     Some \<lparr>status = 200, decoded = None\<rparr> \<and>
   fst (get_user_info sample_constants garbled_backend sample_auth fresh) = Inl JSONDecodeError \<and>
   fst (get_user_info sample_constants garbled_backend sample_auth fresh) \<noteq>
     Inl (Declared ApiError_MalformedResponse)"
  by (simp add: get_user_info_def run_defs sample_defs garbled_backend_def)

text \<open>
  Claim C4, as amended. For every response with a 2xx status whose body is not valid
  JSON, \<open>get_user_info\<close> and \<open>get_content\<close> raise the \<open>JSONDecodeError\<close> of
  \<open>Response.json()\<close>, which reaches the caller as it is.
\<close>

theorem malformed_body_propagates_decoder_error:
  "(srv (sent w) (last (sent (snd (get_user_info K srv a w)))) = Some r \<and>
    200 \<le> status r \<and> status r < 300 \<and> decoded r = None \<longrightarrow>
      fst (get_user_info K srv a w) = Inl JSONDecodeError) \<and>
   (client_version srv w = (Inr ver, w1) \<and>
    srv (sent w1) (last (sent (snd (get_content K srv v w)))) = Some r' \<and>
    200 \<le> status r' \<and> status r' < 300 \<and> decoded r' = None \<longrightarrow>
      fst (get_content K srv v w) = Inl JSONDecodeError)"
proof (intro conjI impI)
  assume "srv (sent w) (last (sent (snd (get_user_info K srv a w)))) = Some r \<and>
    200 \<le> status r \<and> status r < 300 \<and> decoded r = None"
  then show "fst (get_user_info K srv a w) = Inl JSONDecodeError"
    by (simp add: get_user_info_def verb_defs send_lift json_def)
next
  assume a: "client_version srv w = (Inr ver, w1) \<and>
    srv (sent w1) (last (sent (snd (get_content K srv v w)))) = Some r' \<and>
    200 \<le> status r' \<and> status r' < 300 \<and> decoded r' = None"
  then have "fst (get_content K srv v w) = json r'"
    using get_content_once(2) by blast
  with a show "fst (get_content K srv v w) = Inl JSONDecodeError"
    by (simp add: json_def)
qed

text \<open>The theorem at a server that answers 200 with a body that is not JSON.\<close>

theorem malformed_body_propagates_decoder_error_witness:
  "garbled_backend (sent fresh)
      (last (sent (snd (get_user_info sample_constants garbled_backend sample_auth fresh)))) =
     Some \<lparr>status = 200, decoded = None\<rparr> \<and>
   fst (get_user_info sample_constants garbled_backend sample_auth fresh) = Inl JSONDecodeError \<and>
   client_version garbled_backend fresh =
     (Inr (PStr ''release-09.00''), \<lparr>sent = [version_request], stdout = []\<rparr>) \<and>
   garbled_backend [version_request]
      (last (sent (snd (get_content sample_constants garbled_backend sample_client fresh)))) =
     Some \<lparr>status = 200, decoded = None\<rparr> \<and>
   fst (get_content sample_constants garbled_backend sample_client fresh) = Inl JSONDecodeError"
proof -
  let ?w1 = "\<lparr>sent = [version_request], stdout = []\<rparr>"
  let ?r = "\<lparr>status = 200, decoded = None\<rparr>"
  have h1: "garbled_backend (sent fresh)
      (last (sent (snd (get_user_info sample_constants garbled_backend sample_auth fresh)))) = Some ?r"
    by (simp add: get_user_info_def run_defs sample_defs garbled_backend_def)
  have h2: "client_version garbled_backend fresh = (Inr (PStr ''release-09.00''), ?w1)"
    by (simp add: client_version_def run_defs sample_defs garbled_backend_def)
  have h3: "garbled_backend (sent ?w1)
      (last (sent (snd (get_content sample_constants garbled_backend sample_client fresh)))) = Some ?r"
    by (simp add: get_content_def client_platform_value client_version_def run_defs sample_defs
        garbled_backend_def)
  note t = malformed_body_propagates_decoder_error [where srv = garbled_backend
      and K = sample_constants and a = sample_auth and v = sample_client and w = fresh
      and r = ?r and r' = ?r and ver = "PStr ''release-09.00''" and ?w1.0 = ?w1]
  from t h1 h2 h3 show ?thesis
    by simp
qed

lemma init_routing_run:
  assumes "init_routing K srv a w = (Inr v, w')"
  shows "pd_server v = pd_server_url (client_region v)"
    and "glz_server v = glz_server_url (client_region v)"
    and "map url (sent w') = map url (sent w) @
           [''https://riot-geo.pas.si.riotgames.com/pas/v1/product/valorant'',
            USERINFO_URL (urls K)]"
proof -
  obtain res1 wa where g: "get_region K srv a w = (res1, wa)"
    by (cases "get_region K srv a w")
  have wa: "map url (sent wa) = map url (sent w) @
      [''https://riot-geo.pas.si.riotgames.com/pas/v1/product/valorant'']"
    using g by (auto simp: get_region_def verb_defs send_lift)
  from assms g obtain reg where reg: "res1 = Inr reg"
    by (cases res1) (auto simp: init_routing_def io_bind_def)
  obtain res2 wb where u: "get_user_info K srv a wa = (res2, wb)"
    by (cases "get_user_info K srv a wa")
  have wb: "map url (sent wb) = map url (sent wa) @ [USERINFO_URL (urls K)]"
    using u by (auto simp: get_user_info_def verb_defs send_lift)
  from assms g reg u obtain info where info: "res2 = Inr info"
    by (cases res2) (auto simp: init_routing_def io_bind_def)
  from assms g reg u info have v: "v = \<lparr>auth = a, client_region = reg,
      pd_server = pd_server_url reg, glz_server = glz_server_url reg, user_info = info\<rparr>"
    and w': "w' = wb"
    by (auto simp: init_routing_def io_bind_def returns_def)
  from v show "pd_server v = pd_server_url (client_region v)" by simp
  from v show "glz_server v = glz_server_url (client_region v)" by simp
  from w' wa wb show "map url (sent w') = map url (sent w) @
           [''https://riot-geo.pas.si.riotgames.com/pas/v1/product/valorant'',
            USERINFO_URL (urls K)]" by simp
qed

section \<open>Construction of the base URLs\<close>

text \<open>
  Claim C5. The two base URLs are a function of the region and shard codes alone: two
  region values with equal codes, whatever else they carry, give equal URLs. Building
  them reaches no server: the requests sent by the construction, from the region lookup
  to its end, are the geolocation request and the user-info request, and the client it
  returns holds the URLs built from its region.
\<close>

theorem base_urls_pure_and_deterministic:
  fixes r1 :: "'a Region_scheme" and r2 :: "'b Region_scheme"
  shows
  "(region r1 = region r2 \<and> shard r1 = shard r2 \<longrightarrow>
      pd_server_url r1 = pd_server_url r2 \<and> glz_server_url r1 = glz_server_url r2) \<and>
   (init_routing K srv a w = (Inr v, w') \<longrightarrow>
      pd_server v = pd_server_url (client_region v) \<and>
      glz_server v = glz_server_url (client_region v) \<and>
      map url (sent w') = map url (sent w) @
        [''https://riot-geo.pas.si.riotgames.com/pas/v1/product/valorant'',
         USERINFO_URL (urls K)])"
proof (intro conjI impI)
  assume "region r1 = region r2 \<and> shard r1 = shard r2"
  then show "pd_server_url r1 = pd_server_url r2" "glz_server_url r1 = glz_server_url r2"
    by (simp_all add: pd_server_url_def glz_server_url_def)
next
  assume i: "init_routing K srv a w = (Inr v, w')"
  then show "pd_server v = pd_server_url (client_region v)"
    by (rule init_routing_run(1))
  from i show "glz_server v = glz_server_url (client_region v)"
    by (rule init_routing_run(2))
  from i show "map url (sent w') = map url (sent w) @
        [''https://riot-geo.pas.si.riotgames.com/pas/v1/product/valorant'',
         USERINFO_URL (urls K)]"
    by (rule init_routing_run(3))
qed

text \<open>
  The theorem at two region values with the codes \<open>latam\<close> and \<open>na\<close>, one of them with a
  further attribute, and at a construction against the sample servers.
\<close>

theorem base_urls_pure_and_deterministic_witness:
  "pd_server_url \<lparr>region = ''latam'', shard = ''na''\<rparr> =
     pd_server_url \<lparr>region = ''latam'', shard = ''na'', \<dots> = ''la1''\<rparr> \<and>
   glz_server_url \<lparr>region = ''latam'', shard = ''na''\<rparr> =
     glz_server_url \<lparr>region = ''latam'', shard = ''na'', \<dots> = ''la1''\<rparr> \<and>
   fst (init_routing sample_constants (geo_backend ''latam'') sample_auth fresh) =
     Inr \<lparr>auth = sample_auth, client_region = \<lparr>region = ''latam'', shard = ''na''\<rparr>,
          pd_server = ''https://pd.latam.a.pvp.net'',
          glz_server = ''https://glz-latam-1.na.a.pvp.net'',
          user_info = PDict [(''sub'', PStr ''player-1'')]\<rparr> \<and>
   map url (sent (snd (init_routing sample_constants (geo_backend ''latam'') sample_auth fresh))) =
     [''https://riot-geo.pas.si.riotgames.com/pas/v1/product/valorant'',
      ''https://auth.riotgames.com/userinfo'']"
proof -
  let ?v = "\<lparr>auth = sample_auth, client_region = \<lparr>region = ''latam'', shard = ''na''\<rparr>,
          pd_server = ''https://pd.latam.a.pvp.net'',
          glz_server = ''https://glz-latam-1.na.a.pvp.net'',
          user_info = PDict [(''sub'', PStr ''player-1'')]\<rparr>"
  let ?run = "init_routing sample_constants (geo_backend ''latam'') sample_auth fresh"
  have f: "fst ?run = Inr ?v"
    by (simp add: init_routing_def get_region_def get_user_info_def run_defs sample_defs
        geo_backend_def pd_server_url_def glz_server_url_def)
  then have h: "?run = (Inr ?v, snd ?run)"
    by (metis prod.collapse)
  note t = base_urls_pure_and_deterministic [where ?r1.0 = "\<lparr>region = ''latam'', shard = ''na''\<rparr>"
      and ?r2.0 = "\<lparr>region = ''latam'', shard = ''na'', \<dots> = ''la1''\<rparr>"
      and K = sample_constants and srv = "geo_backend ''latam''" and a = sample_auth
      and w = fresh and v = ?v and w' = "snd ?run"]
  from t have d: "pd_server_url \<lparr>region = ''latam'', shard = ''na''\<rparr> =
     pd_server_url \<lparr>region = ''latam'', shard = ''na'', \<dots> = ''la1''\<rparr> \<and>
   glz_server_url \<lparr>region = ''latam'', shard = ''na''\<rparr> =
     glz_server_url \<lparr>region = ''latam'', shard = ''na'', \<dots> = ''la1''\<rparr>"
    by simp
  from t h have "map url (sent (snd ?run)) = map url (sent fresh) @
      [''https://riot-geo.pas.si.riotgames.com/pas/v1/product/valorant'',
       USERINFO_URL (urls sample_constants)]"
    by blast
  then have u: "map url (sent (snd ?run)) =
     [''https://riot-geo.pas.si.riotgames.com/pas/v1/product/valorant'',
      ''https://auth.riotgames.com/userinfo'']"
    by (simp add: sample_defs)
  from d f u show ?thesis
    by blast
qed

section \<open>Headers of the routed calls\<close>

text \<open>
  Claim C6. Every method whose URL is built from the \<open>pd\<close> or the \<open>glz\<close> base server
  attaches an \<open>Authorization\<close> header equal to \<open>Bearer\<close>, a space and the access token,
  and an \<open>X-Riot-Entitlements-JWT\<close> header equal to the entitlement token. In three
  parts, for every one of the 25 methods: every request the call sends, the version
  lookup of \<open>client_version\<close> apart, carries both headers; a call that returns has sent
  a request, and the last one is its routed request with both headers; and when the
  user info has a \<open>sub\<close>, the version lookup is answered and the pre-game lookup is
  answered with a match id, the call does send its routed request, with both headers,
  whatever the answer to it.
\<close>

theorem routed_requests_carry_tokens:
  "(\<forall>q \<in> set (drop (length (sent w)) (sent (snd (call K srv v m w)))).
      q = version_request \<or> carries_tokens v q) \<and>
   (fst (call K srv v m w) = Inr res \<longrightarrow>
      length (sent w) < length (sent (snd (call K srv v m w))) \<and>
      carries_tokens v (last (sent (snd (call K srv v m w)))) \<and>
      routed v (last (sent (snd (call K srv v m w))))) \<and>
   (getitem (user_info v) ''sub'' = Inr sub \<and>
    (\<forall>h. \<exists>r j d ver. srv h version_request = Some r \<and> decoded r = Some j \<and>
           getitem j ''data'' = Inr d \<and> getitem d ''riotClientVersion'' = Inr ver) \<and>
    (\<forall>h q. url q = glz_server v @ PREGAME_PLAYER (api K) @ ''/'' @ py_str sub \<longrightarrow>
           (\<exists>r j mid. srv h q = Some r \<and> decoded r = Some j \<and>
              getitem j ''MatchID'' = Inr mid)) \<longrightarrow>
      length (sent w) < length (sent (snd (call K srv v m w))) \<and>
      carries_tokens v (last (sent (snd (call K srv v m w)))) \<and>
      routed v (last (sent (snd (call K srv v m w)))))"
proof (intro conjI impI)
  from sends_only_call [of v K srv m]
  obtain new where new: "sent (snd (call K srv v m w)) = sent w @ new"
    "list_all (\<lambda>q. q = version_request \<or> carries_tokens v q) new"
    unfolding sends_only_def by blast
  then show "\<forall>q \<in> set (drop (length (sent w)) (sent (snd (call K srv v m w)))).
      q = version_request \<or> carries_tokens v q"
    by (simp add: list_all_iff)
next
  assume ok: "fst (call K srv v m w) = Inr res"
  from returns_after_call [of v K srv m] ok
  obtain pre q where q: "sent (snd (call K srv v m w)) = sent w @ pre @ [q]"
    "carries_tokens v q \<and> routed v q"
    unfolding returns_after_def by (metis sum.distinct(1))
  from q show "length (sent w) < length (sent (snd (call K srv v m w)))" by simp
  from q show "carries_tokens v (last (sent (snd (call K srv v m w))))" by simp
  from q show "routed v (last (sent (snd (call K srv v m w))))" by simp
next
  assume h: "getitem (user_info v) ''sub'' = Inr sub \<and>
    (\<forall>h. \<exists>r j d ver. srv h version_request = Some r \<and> decoded r = Some j \<and>
           getitem j ''data'' = Inr d \<and> getitem d ''riotClientVersion'' = Inr ver) \<and>
    (\<forall>h q. url q = glz_server v @ PREGAME_PLAYER (api K) @ ''/'' @ py_str sub \<longrightarrow>
           (\<exists>r j mid. srv h q = Some r \<and> decoded r = Some j \<and>
              getitem j ''MatchID'' = Inr mid))"
  then have "sends_last (\<lambda>q. carries_tokens v q \<and> routed v q) (call K srv v m)"
    by (intro sends_last_call [where sub = sub]) blast+
  then obtain pre q where q: "sent (snd (call K srv v m w)) = sent w @ pre @ [q]"
    "carries_tokens v q \<and> routed v q"
    unfolding sends_last_def by blast
  from q show "length (sent w) < length (sent (snd (call K srv v m w)))" by simp
  from q show "carries_tokens v (last (sent (snd (call K srv v m w))))" by simp
  from q show "routed v (last (sent (snd (call K srv v m w))))" by simp
qed

lemma sample_hyps:
  "getitem (user_info sample_client) ''sub'' = Inr (PStr ''player-1'')"
  "\<forall>h. \<exists>r j d ver. pregame_backend h version_request = Some r \<and> decoded r = Some j \<and>
       getitem j ''data'' = Inr d \<and> getitem d ''riotClientVersion'' = Inr ver"
  "\<forall>h q. url q = glz_server sample_client @ PREGAME_PLAYER (api sample_constants) @ ''/''
         @ py_str (PStr ''player-1'') \<longrightarrow>
       (\<exists>r j mid. pregame_backend h q = Some r \<and> decoded r = Some j \<and>
          getitem j ''MatchID'' = Inr mid)"
  by (simp_all add: sample_defs pregame_backend_def)

text \<open>
  The theorem at \<open>get_wallet\<close>, \<open>get_content\<close> and \<open>get_pregame_match\<close>: the requests each
  sends, and the two headers on the routed request (for \<open>get_pregame_match\<close>, on the
  pre-game lookup before it as well).
\<close>

theorem routed_requests_carry_tokens_witness:
  "fst (call sample_constants pregame_backend sample_client Get_wallet fresh) =
     Inr (PDict [(''MatchID'', PStr ''abc'')]) \<and>
   map url (sent (snd (call sample_constants pregame_backend sample_client Get_wallet fresh))) =
     [''https://pd.na1.a.pvp.net/store/v1/wallet/player-1''] \<and>
   map_of (headers (last (sent (snd (call sample_constants pregame_backend sample_client
       Get_wallet fresh))))) ''Authorization'' = Some (PStr ''Bearer acc'') \<and>
   map_of (headers (last (sent (snd (call sample_constants pregame_backend sample_client
       Get_wallet fresh))))) ''X-Riot-Entitlements-JWT'' = Some (PStr ''ent'') \<and>
   map url (sent (snd (call sample_constants pregame_backend sample_client Get_content fresh))) =
     [''https://valorant-api.com/v1/version'',
      ''https://pd.na1.a.pvp.net/content-service/v3/content''] \<and>
   map_of (headers (last (sent (snd (call sample_constants pregame_backend sample_client
       Get_content fresh))))) ''Authorization'' = Some (PStr ''Bearer acc'') \<and>
   map_of (headers (last (sent (snd (call sample_constants pregame_backend sample_client
       Get_content fresh))))) ''X-Riot-Entitlements-JWT'' = Some (PStr ''ent'') \<and>
   map url (sent (snd (call sample_constants pregame_backend sample_client
       (Get_pregame_match None) fresh))) =
     [''https://glz-na1-1.na1.a.pvp.net/pregame/v1/players/player-1'',
      ''https://glz-na1-1.na1.a.pvp.net/pregame/v1/matches/abc''] \<and>
   map_of (headers (hd (sent (snd (call sample_constants pregame_backend sample_client
       (Get_pregame_match None) fresh))))) ''Authorization'' = Some (PStr ''Bearer acc'') \<and>
   map_of (headers (hd (sent (snd (call sample_constants pregame_backend sample_client
       (Get_pregame_match None) fresh))))) ''X-Riot-Entitlements-JWT'' = Some (PStr ''ent'') \<and>
   map_of (headers (last (sent (snd (call sample_constants pregame_backend sample_client
       (Get_pregame_match None) fresh))))) ''Authorization'' = Some (PStr ''Bearer acc'') \<and>
   map_of (headers (last (sent (snd (call sample_constants pregame_backend sample_client
       (Get_pregame_match None) fresh))))) ''X-Riot-Entitlements-JWT'' = Some (PStr ''ent'')"
proof -
  let ?wallet = "call sample_constants pregame_backend sample_client Get_wallet fresh"
  let ?content = "call sample_constants pregame_backend sample_client Get_content fresh"
  let ?match = "call sample_constants pregame_backend sample_client (Get_pregame_match None) fresh"
  note t = routed_requests_carry_tokens [where K = sample_constants and srv = pregame_backend
      and v = sample_client and w = fresh and sub = "PStr ''player-1''"]
  have tok: "''Bearer '' @ get_access_token (auth sample_client) = ''Bearer acc''"
    "get_entitlement_token (auth sample_client) = ''ent''"
    by (simp_all add: sample_defs get_access_token_def get_entitlement_token_def)
  have r1: "fst ?wallet = Inr (PDict [(''MatchID'', PStr ''abc'')])"
    by (simp add: get_wallet_def run_defs sample_defs pregame_backend_def)
  have u1: "map url (sent (snd ?wallet)) = [''https://pd.na1.a.pvp.net/store/v1/wallet/player-1'']"
    by (simp add: get_wallet_def run_defs sample_defs pregame_backend_def)
  have u2: "map url (sent (snd ?content)) =
     [''https://valorant-api.com/v1/version'',
      ''https://pd.na1.a.pvp.net/content-service/v3/content'']"
    by (simp add: get_content_def client_platform_value client_version_def run_defs sample_defs
        pregame_backend_def)
  have u3: "map url (sent (snd ?match)) =
     [''https://glz-na1-1.na1.a.pvp.net/pregame/v1/players/player-1'',
      ''https://glz-na1-1.na1.a.pvp.net/pregame/v1/matches/abc'']"
    by (simp add: get_pregame_match_def get_pregame_id_def run_defs sample_defs
        pregame_backend_def)
  from t [where m = Get_wallet and res = "PDict [(''MatchID'', PStr ''abc'')]"] r1
  have "carries_tokens sample_client (last (sent (snd ?wallet)))"
    by blast
  then have c1: "map_of (headers (last (sent (snd ?wallet)))) ''Authorization'' =
      Some (PStr ''Bearer acc'')"
    "map_of (headers (last (sent (snd ?wallet)))) ''X-Riot-Entitlements-JWT'' = Some (PStr ''ent'')"
    unfolding carries_tokens_def tok by blast+
  from t [where m = Get_content] sample_hyps
  have "carries_tokens sample_client (last (sent (snd ?content)))"
    by blast
  then have c2: "map_of (headers (last (sent (snd ?content)))) ''Authorization'' =
      Some (PStr ''Bearer acc'')"
    "map_of (headers (last (sent (snd ?content)))) ''X-Riot-Entitlements-JWT'' = Some (PStr ''ent'')"
    unfolding carries_tokens_def tok by blast+
  from t [where m = "Get_pregame_match None"] sample_hyps
  have "carries_tokens sample_client (last (sent (snd ?match)))"
    by blast
  then have c3: "map_of (headers (last (sent (snd ?match)))) ''Authorization'' =
      Some (PStr ''Bearer acc'')"
    "map_of (headers (last (sent (snd ?match)))) ''X-Riot-Entitlements-JWT'' = Some (PStr ''ent'')"
    unfolding carries_tokens_def tok by blast+
  from u3 have ne: "sent (snd ?match) \<noteq> []"
    by auto
  then have mem: "hd (sent (snd ?match)) \<in> set (drop (length (sent fresh)) (sent (snd ?match)))"
    by (simp add: fresh_def)
  from u3 ne have "url (hd (sent (snd ?match))) =
      ''https://glz-na1-1.na1.a.pvp.net/pregame/v1/players/player-1''"
    by (cases "sent (snd ?match)") auto
  then have nv: "hd (sent (snd ?match)) \<noteq> version_request"
    by (auto simp: version_request_def)
  from t [where m = "Get_pregame_match None"] mem
  have "hd (sent (snd ?match)) = version_request \<or>
      carries_tokens sample_client (hd (sent (snd ?match)))"
    by blast
  with nv have "carries_tokens sample_client (hd (sent (snd ?match)))"
    by blast
  then have c4: "map_of (headers (hd (sent (snd ?match)))) ''Authorization'' =
      Some (PStr ''Bearer acc'')"
    "map_of (headers (hd (sent (snd ?match)))) ''X-Riot-Entitlements-JWT'' = Some (PStr ''ent'')"
    unfolding carries_tokens_def tok by blast+
  from r1 u1 c1 u2 c2 u3 c4 c3 show ?thesis
    by blast
qed

section \<open>The leaderboard URL\<close>

text \<open>
  Claim C8. When \<open>username\<close> is \<open>None\<close> or the empty string, the URL \<open>get_leaderboard\<close>
  sends its request to is the empty string, not the leaderboard endpoint of the \<open>pd\<close>
  server: the conditional takes the whole concatenation as its first branch.
\<close>

theorem leaderboard_url_empty_without_username:
  assumes "username = None \<or> username = Some []"
    and "client_version srv w = (Inr ver, w1)"
  shows "map url (sent (snd (get_leaderboard K srv v season_id start amount username w))) =
           map url (sent w1) @ [[]]"
proof -
  from assms(1) have "\<not> truthy username"
    by (auto simp: truthy_def)
  then show ?thesis
    by (simp add: get_leaderboard_def verb_defs send_lift
        bind_Inr [where m = "client_version srv", OF assms(2)])
qed

text \<open>The theorem at \<open>username = None\<close> and at \<open>username = ""\<close>.\<close>

theorem leaderboard_url_empty_without_username_witness:
  "client_version pregame_backend fresh =
     (Inr (PStr ''release-09.00''), \<lparr>sent = [version_request], stdout = []\<rparr>) \<and>
   map url (sent (snd (get_leaderboard sample_constants pregame_backend sample_client
       ''season-1'' 0 510 None fresh))) = [''https://valorant-api.com/v1/version'', []] \<and>
   map url (sent (snd (get_leaderboard sample_constants pregame_backend sample_client
       ''season-1'' 0 510 (Some []) fresh))) = [''https://valorant-api.com/v1/version'', []]"
proof -
  let ?w1 = "\<lparr>sent = [version_request], stdout = []\<rparr>"
  have h: "client_version pregame_backend fresh = (Inr (PStr ''release-09.00''), ?w1)"
    by (simp add: client_version_def run_defs sample_defs pregame_backend_def)
  have a: "map url (sent (snd (get_leaderboard sample_constants pregame_backend sample_client
       ''season-1'' 0 510 None fresh))) = map url (sent ?w1) @ [[]]"
    by (rule leaderboard_url_empty_without_username [OF _ h]) simp
  have b: "map url (sent (snd (get_leaderboard sample_constants pregame_backend sample_client
       ''season-1'' 0 510 (Some []) fresh))) = map url (sent ?w1) @ [[]]"
    by (rule leaderboard_url_empty_without_username [OF _ h]) simp
  from h a b show ?thesis
    by (simp add: version_request_def)
qed

section \<open>The pre-game match id\<close>

text \<open>
  Claim C9. Called without a match id, \<open>select_agent\<close>, \<open>lock_agent\<close> and \<open>quit_pregame\<close>
  write the whole value returned by \<open>get_pregame_id\<close> into the URL, whereas
  \<open>get_pregame_match\<close> and \<open>get_pregame_loadout\<close> write its \<open>"MatchID"\<close> field.
\<close>

theorem pregame_id_interpolated_whole:
  assumes "get_pregame_id K srv v None w = (Inr d, w1)"
  shows
   "map url (sent (snd (select_agent K srv v agent_id None w))) =
      map url (sent w1) @
        [glz_server v @ MATCHES (api K) @ ''/'' @ py_str d @ ''/select/'' @ agent_id] \<and>
    map url (sent (snd (lock_agent K srv v agent_id None w))) =
      map url (sent w1) @
        [glz_server v @ MATCHES (api K) @ ''/'' @ py_str d @ ''/lock/'' @ agent_id] \<and>
    map url (sent (snd (quit_pregame K srv v None w))) =
      map url (sent w1) @ [glz_server v @ MATCHES (api K) @ ''/'' @ py_str d @ ''/quit''] \<and>
    (getitem d ''MatchID'' = Inr match_id \<longrightarrow>
       map url (sent (snd (get_pregame_match K srv v None w))) =
         map url (sent w1) @ [glz_server v @ PREGAME_MATCH (api K) @ ''/'' @ py_str match_id] \<and>
       map url (sent (snd (get_pregame_loadout K srv v None w))) =
         map url (sent w1) @
           [glz_server v @ PREGAME_MATCH (api K) @ ''/'' @ py_str match_id @ ''/loadouts''])"
proof (intro conjI impI)
  note b = bind_Inr [where m = "get_pregame_id K srv v None", OF assms]
  show "map url (sent (snd (select_agent K srv v agent_id None w))) =
      map url (sent w1) @
        [glz_server v @ MATCHES (api K) @ ''/'' @ py_str d @ ''/select/'' @ agent_id]"
    by (simp add: select_agent_def verb_defs send_lift b)
  show "map url (sent (snd (lock_agent K srv v agent_id None w))) =
      map url (sent w1) @
        [glz_server v @ MATCHES (api K) @ ''/'' @ py_str d @ ''/lock/'' @ agent_id]"
    by (simp add: lock_agent_def verb_defs send_lift b)
  show "map url (sent (snd (quit_pregame K srv v None w))) =
      map url (sent w1) @ [glz_server v @ MATCHES (api K) @ ''/'' @ py_str d @ ''/quit'']"
    by (simp add: quit_pregame_def verb_defs send_lift b)
  assume k: "getitem d ''MatchID'' = Inr match_id"
  have e: "io_bind (get_pregame_id K srv v None) (\<lambda>d. lift (getitem d ''MatchID'')) w =
             (Inr match_id, w1)"
    by (simp add: b lift_def k)
  note b2 = bind_Inr [where m = "io_bind (get_pregame_id K srv v None)
      (\<lambda>d. lift (getitem d ''MatchID''))", OF e]
  show "map url (sent (snd (get_pregame_match K srv v None w))) =
         map url (sent w1) @ [glz_server v @ PREGAME_MATCH (api K) @ ''/'' @ py_str match_id]"
    by (simp add: get_pregame_match_def verb_defs send_lift b2)
  show "map url (sent (snd (get_pregame_loadout K srv v None w))) =
         map url (sent w1) @
           [glz_server v @ PREGAME_MATCH (api K) @ ''/'' @ py_str match_id @ ''/loadouts'']"
    by (simp add: get_pregame_loadout_def verb_defs send_lift b2)
qed

text \<open>
  The theorem at a server whose pre-game answer is \<open>{"MatchID": "abc"}\<close>: \<open>select_agent\<close>
  asks for \<open>.../matches/{'MatchID': 'abc'}/select/jett\<close>, \<open>get_pregame_match\<close> for
  \<open>.../matches/abc\<close>.
\<close>

theorem pregame_id_interpolated_whole_witness:
  "fst (get_pregame_id sample_constants pregame_backend sample_client None fresh) =
     Inr (PDict [(''MatchID'', PStr ''abc'')]) \<and>
   map url (sent (snd (select_agent sample_constants pregame_backend sample_client ''jett''
       None fresh))) =
     [''https://glz-na1-1.na1.a.pvp.net/pregame/v1/players/player-1'',
      ''https://glz-na1-1.na1.a.pvp.net/match-details/v1/matches/{'' @ [CHR 0x27] @ ''MatchID''
        @ [CHR 0x27] @ '': '' @ [CHR 0x27] @ ''abc'' @ [CHR 0x27] @ ''}/select/jett''] \<and>
   map url (sent (snd (get_pregame_match sample_constants pregame_backend sample_client
       None fresh))) =
     [''https://glz-na1-1.na1.a.pvp.net/pregame/v1/players/player-1'',
      ''https://glz-na1-1.na1.a.pvp.net/pregame/v1/matches/abc'']"
proof -
  let ?d = "PDict [(''MatchID'', PStr ''abc'')]"
  let ?run = "get_pregame_id sample_constants pregame_backend sample_client None fresh"
  have f: "fst ?run = Inr ?d"
    by (simp add: get_pregame_id_def run_defs sample_defs pregame_backend_def)
  then have h: "?run = (Inr ?d, snd ?run)"
    by (metis prod.collapse)
  have w1: "map url (sent (snd ?run)) =
      [''https://glz-na1-1.na1.a.pvp.net/pregame/v1/players/player-1'']"
    by (simp add: get_pregame_id_def run_defs sample_defs pregame_backend_def)
  have k: "getitem ?d ''MatchID'' = Inr (PStr ''abc'')"
    by simp
  have ps: "py_str ?d = ''{'' @ [CHR 0x27] @ ''MatchID'' @ [CHR 0x27] @ '': '' @ [CHR 0x27]
      @ ''abc'' @ [CHR 0x27] @ ''}''"
    by code_simp
  have g: "glz_server sample_client = ''https://glz-na1-1.na1.a.pvp.net''"
    by (simp add: sample_client_def)
  have mt: "MATCHES (api sample_constants) = ''/match-details/v1/matches''"
    by (simp add: sample_constants_def sample_api_def)
  have pm: "PREGAME_MATCH (api sample_constants) = ''/pregame/v1/matches''"
    by (simp add: sample_constants_def sample_api_def)
  note t = pregame_id_interpolated_whole [OF h, where agent_id = "''jett''"
      and match_id = "PStr ''abc''"]
  from t have "map url (sent (snd (select_agent sample_constants pregame_backend sample_client
       ''jett'' None fresh))) =
     map url (sent (snd ?run)) @
       [glz_server sample_client @ MATCHES (api sample_constants) @ ''/'' @ py_str ?d
          @ ''/select/'' @ ''jett'']"
    by blast
  also have "\<dots> =
     [''https://glz-na1-1.na1.a.pvp.net/pregame/v1/players/player-1'',
      ''https://glz-na1-1.na1.a.pvp.net/match-details/v1/matches/{'' @ [CHR 0x27] @ ''MatchID''
        @ [CHR 0x27] @ '': '' @ [CHR 0x27] @ ''abc'' @ [CHR 0x27] @ ''}/select/jett'']"
    unfolding w1 ps g mt by simp
  finally have a: "map url (sent (snd (select_agent sample_constants pregame_backend
       sample_client ''jett'' None fresh))) =
     [''https://glz-na1-1.na1.a.pvp.net/pregame/v1/players/player-1'',
      ''https://glz-na1-1.na1.a.pvp.net/match-details/v1/matches/{'' @ [CHR 0x27] @ ''MatchID''
        @ [CHR 0x27] @ '': '' @ [CHR 0x27] @ ''abc'' @ [CHR 0x27] @ ''}/select/jett'']" .
  from t k have "map url (sent (snd (get_pregame_match sample_constants pregame_backend
       sample_client None fresh))) =
     map url (sent (snd ?run)) @
       [glz_server sample_client @ PREGAME_MATCH (api sample_constants) @ ''/''
          @ py_str (PStr ''abc'')]"
    by blast
  also have "\<dots> =
     [''https://glz-na1-1.na1.a.pvp.net/pregame/v1/players/player-1'',
      ''https://glz-na1-1.na1.a.pvp.net/pregame/v1/matches/abc'']"
    unfolding w1 g pm by simp
  finally have b: "map url (sent (snd (get_pregame_match sample_constants pregame_backend
       sample_client None fresh))) =
     [''https://glz-na1-1.na1.a.pvp.net/pregame/v1/players/player-1'',
      ''https://glz-na1-1.na1.a.pvp.net/pregame/v1/matches/abc'']" .
  from f a b show ?thesis
    by blast
qed

end
